theory Spec2Isabelle
  imports Main
begin

section \<open>The outside world of \<open>scripts/init.py\<close>\<close>

text \<open>
  \<open>scripts/init.py\<close> drives \<open>git\<close> and \<open>ssh\<close> through
  \<open>asyncio.create_subprocess_exec\<close>. A working-copy location is kept symbolic:
  \<open>Resolved s\<close> is an absolute path given as text (the resolved parent directory, the
  current working directory) and \<open>Div p n\<close> is Python's \<open>p / n\<close>.
\<close>

datatype path = Resolved string | Div path string

text \<open>
  One constructor per command line of the source; the comment gives the argument vector and
  the \<open>cwd=\<close> the source passes.
\<close>

datatype cmd =
    Ssh                               \<comment> \<open>\<open>ssh -T git@github.com\<close>\<close>
  | GitRemoteGetUrl path              \<comment> \<open>\<open>git remote get-url origin\<close>, cwd\<close>
  | GitFetch path                     \<comment> \<open>\<open>git fetch\<close>, cwd\<close>
  | GitRevParse path                  \<comment> \<open>\<open>git rev-parse --abbrev-ref HEAD\<close>, cwd\<close>
  | GitPull path string               \<comment> \<open>\<open>git pull origin <branch>\<close>, cwd\<close>
  | GitClone string path              \<comment> \<open>\<open>git clone <url> <str(path)>\<close>\<close>
  | GitCheckout path string           \<comment> \<open>\<open>git checkout <branch>\<close>, cwd\<close>
  | GitCheckoutNew path string        \<comment> \<open>\<open>git checkout -b <branch> origin/main\<close>, cwd\<close>
  | GitAdd path                       \<comment> \<open>\<open>git add .\<close>, cwd\<close>
  | GitCommit path string             \<comment> \<open>\<open>git commit -m <message> --allow-empty\<close>, cwd\<close>
  | GitRemoteAdd path string string   \<comment> \<open>\<open>git remote add <name> <url>\<close>, cwd\<close>
  | GitRemoteSetUrl path string string \<comment> \<open>\<open>git remote set-url <name> <url>\<close>, cwd\<close>
  | GitRemoteRemove path string       \<comment> \<open>\<open>git remote remove <name>\<close>, cwd\<close>

text \<open>
  What a pipe delivered: the bytes as text when they are valid UTF-8, so that
  \<open>.decode()\<close> returns, and \<open>NotUtf8\<close> when \<open>.decode()\<close> raises
  \<open>UnicodeDecodeError\<close>.
\<close>

datatype piped = Utf8 string | NotUtf8

text \<open>
  The outcome of \<open>await create_subprocess_exec(...)\<close> followed by
  \<open>await process.communicate()\<close>: either one of the two awaits raises, or the process
  ends with an exit status and its captured standard output and standard error. The source never
  reads \<open>process.returncode\<close>.
\<close>

datatype outcome = Raised | Exited int piped piped

section \<open>Python values\<close>

text \<open>
  Python text is kept as its UTF-8 bytes (\<open>string\<close> is a list of 8-bit characters), so the
  marks the source prints are three bytes each.
\<close>

definition ok_mark :: string where
  "ok_mark = [CHR 0xE2, CHR 0x9C, CHR 0x85]"

definition fail_mark :: string where
  "fail_mark = [CHR 0xE2, CHR 0x9D, CHR 0x8C]"

definition nl :: string where
  "nl = [CHR 0x0A]"

text \<open>
  \<open>str.strip()\<close> with no argument removes leading and trailing whitespace. The ASCII
  whitespace is tab, line feed, vertical tab, form feed, carriage return, the four
  separators \<open>0x1C\<close> to \<open>0x1F\<close> and the space; beyond ASCII it is U+0085 and U+00A0
  (two bytes each in UTF-8) and U+1680, U+2000 to U+200A, U+2028, U+2029, U+202F, U+205F
  and U+3000 (three bytes each).
\<close>

definition py_isspace :: "char \<Rightarrow> bool" where
  "py_isspace c = (let n = of_char c :: nat in (9 \<le> n \<and> n \<le> 13) \<or> (28 \<le> n \<and> n \<le> 32))"

definition wide2 :: "char \<Rightarrow> char \<Rightarrow> bool" where
  "wide2 a b = (a = CHR 0xC2 \<and> (b = CHR 0x85 \<or> b = CHR 0xA0))"

definition wide3 :: "char \<Rightarrow> char \<Rightarrow> char \<Rightarrow> bool" where
  "wide3 a b c =
     (let n = of_char c :: nat in
      (a = CHR 0xE1 \<and> b = CHR 0x9A \<and> c = CHR 0x80)
      \<or> (a = CHR 0xE2 \<and> b = CHR 0x80 \<and> ((128 \<le> n \<and> n \<le> 138) \<or> n = 168 \<or> n = 169 \<or> n = 175))
      \<or> (a = CHR 0xE2 \<and> b = CHR 0x81 \<and> c = CHR 0x9F)
      \<or> (a = CHR 0xE3 \<and> b = CHR 0x80 \<and> c = CHR 0x80))"

fun lstrip :: "string \<Rightarrow> string" where
  "lstrip (a # b # c # s) =
     (if py_isspace a then lstrip (b # c # s)
      else if wide2 a b then lstrip (c # s)
      else if wide3 a b c then lstrip s
      else a # b # c # s)"
| "lstrip [a, b] = (if py_isspace a then lstrip [b] else if wide2 a b then [] else [a, b])"
| "lstrip [a] = (if py_isspace a then [] else [a])"
| "lstrip [] = []"

text \<open>The same from the end, on the reversed string: \<open>c\<close> is the last byte.\<close>

fun rstrip_rev :: "string \<Rightarrow> string" where
  "rstrip_rev (c # b # a # s) =
     (if py_isspace c then rstrip_rev (b # a # s)
      else if wide2 b c then rstrip_rev (a # s)
      else if wide3 a b c then rstrip_rev s
      else c # b # a # s)"
| "rstrip_rev [c, b] = (if py_isspace c then rstrip_rev [b] else if wide2 b c then [] else [c, b])"
| "rstrip_rev [c] = (if py_isspace c then [] else [c])"
| "rstrip_rev [] = []"

definition py_strip :: "string \<Rightarrow> string" where
  "py_strip s = rev (rstrip_rev (rev (lstrip s)))"

text \<open>\<open>str.lower()\<close> on ASCII letters.\<close>

definition py_lower_char :: "char \<Rightarrow> char" where
  "py_lower_char c = (let n = of_char c :: nat in if 65 \<le> n \<and> n \<le> 90 then char_of (n + 32) else c)"

definition py_lower :: "string \<Rightarrow> string" where
  "py_lower s = map py_lower_char s"

text \<open>\<open>needle in haystack\<close> on strings.\<close>

fun py_in :: "string \<Rightarrow> string \<Rightarrow> bool" where
  "py_in needle [] = (needle = [])"
| "py_in needle (c # cs) = (take (length needle) (c # cs) = needle \<or> py_in needle cs)"

text \<open>
  An optional string argument (\<open>None\<close> by default). Its truth value is false for
  \<open>None\<close> and for the empty string; in an f-string \<open>None\<close> is written
  \<open>None\<close>. Where the source passes such a value on, it has just tested it, so
  \<open>fmt\<close> also stands for the string itself there.
\<close>

fun truthy :: "string option \<Rightarrow> bool" where
  "truthy None = False"
| "truthy (Some s) = (s \<noteq> [])"

fun fmt :: "string option \<Rightarrow> string" where
  "fmt None = ''None''"
| "fmt (Some s) = s"

text \<open>
  The values \<open>json.loads\<close> takes and returns (numbers are integers here), a
  \<open>dict\<close> as its items in order, each key once.
\<close>

datatype pyval =
    PNone
  | PBool bool
  | PInt int
  | PStr string
  | PBytes string
  | PList "pyval list"
  | PDict "(string \<times> pyval) list"

datatype exn = TypeError | KeyError | NameError | JSONDecodeError | SystemExit int

text \<open>
  \<open>json.loads(s)\<close>: \<open>s\<close> must be a \<open>str\<close>, \<open>bytes\<close> or
  \<open>bytearray\<close>, anything else is a \<open>TypeError\<close>; the grammar itself is the
  parameter \<open>parse\<close>, which answers \<open>None\<close> where the library raises
  \<open>JSONDecodeError\<close>.
\<close>

definition json_loads :: "(string \<Rightarrow> pyval option) \<Rightarrow> pyval \<Rightarrow> exn + pyval" where
  "json_loads parse s =
     (case s of
        PStr t \<Rightarrow> (case parse t of None \<Rightarrow> Inl JSONDecodeError | Some v \<Rightarrow> Inr v)
      | PBytes b \<Rightarrow> (case parse b of None \<Rightarrow> Inl JSONDecodeError | Some v \<Rightarrow> Inr v)
      | _ \<Rightarrow> Inl TypeError)"

text \<open>\<open>for repo in self.repositories\<close>: what iterating a parsed value yields.\<close>

definition py_iter :: "pyval \<Rightarrow> exn + pyval list" where
  "py_iter v =
     (case v of
        PList xs \<Rightarrow> Inr xs
      | PDict kvs \<Rightarrow> Inr (map (\<lambda>kv. PStr (fst kv)) kvs)
      | PStr t \<Rightarrow> Inr (map (\<lambda>c. PStr [c]) t)
      | PBytes b \<Rightarrow> Inr (map (\<lambda>c. PInt (int (of_char c :: nat))) b)
      | _ \<Rightarrow> Inl TypeError)"

text \<open>
  \<open>repo_name = repo["name"]\<close> followed by \<open>self.base_dir / repo_name\<close>: a missing key
  is a \<open>KeyError\<close>, subscripting anything but a \<open>dict\<close> with a string is a
  \<open>TypeError\<close>, and so is joining a path with anything but a string.
\<close>

definition repo_name_of :: "pyval \<Rightarrow> exn + string" where
  "repo_name_of repo =
     (case repo of
        PDict kvs \<Rightarrow>
          (case map_of kvs ''name'' of
             None \<Rightarrow> Inl KeyError
           | Some v \<Rightarrow> (case v of PStr n \<Rightarrow> Inr n | _ \<Rightarrow> Inl TypeError))
      | _ \<Rightarrow> Inl TypeError)"

section \<open>Coroutines\<close>

text \<open>
  An \<open>async def\<close> is a tree of its interactions with the world: it returns, or it awaits
  a subprocess and continues with the outcome, or it asks whether a path exists
  (\<open>Path.exists\<close>), creates a directory (\<open>os.makedirs(..., exist_ok=True)\<close>) or
  prints a line. Only the subprocess calls sit inside \<open>try\<close> blocks in the source; the
  file system calls are taken to return. A line that the source ends with the text of a
  caught exception is printed here without that text.
\<close>

datatype 'a co =
    Return 'a
  | Spawn cmd "outcome \<Rightarrow> 'a co"
  | Exists path "bool \<Rightarrow> 'a co"
  | Makedirs path "'a co"
  | Print string "'a co"

primrec bnd :: "'a co \<Rightarrow> ('a \<Rightarrow> 'b co) \<Rightarrow> 'b co" where
  "bnd (Return a) f = f a"
| "bnd (Spawn c k) f = Spawn c (\<lambda>r. bnd (k r) f)"
| "bnd (Exists p k) f = Exists p (\<lambda>b. bnd (k b) f)"
| "bnd (Makedirs p m) f = Makedirs p (bnd m f)"
| "bnd (Print t m) f = Print t (bnd m f)"

text \<open>
  The world answers. Its state \<open>'w\<close> is arbitrary, so the same command may be answered
  differently at different moments of a run.
\<close>

record 'w env =
  run_cmd :: "'w \<Rightarrow> cmd \<Rightarrow> outcome \<times> 'w"
  path_exists :: "'w \<Rightarrow> path \<Rightarrow> bool"
  made :: "'w \<Rightarrow> path \<Rightarrow> 'w"

text \<open>The history of a run: every interaction with the answer it got.\<close>

datatype event =
    Ran cmd outcome
  | Asked path bool
  | Made path
  | Said string

primrec exec :: "'w env \<Rightarrow> 'a co \<Rightarrow> 'w \<Rightarrow> 'a \<times> 'w \<times> event list" where
  "exec E (Return a) = (\<lambda>w. (a, w, []))"
| "exec E (Spawn c k) = (\<lambda>w.
     let (r, w') = run_cmd E w c; (a, w'', t) = exec E (k r) w'
     in (a, w'', Ran c r # t))"
| "exec E (Exists p k) = (\<lambda>w.
     let b = path_exists E w p; (a, w', t) = exec E (k b) w
     in (a, w', Asked p b # t))"
| "exec E (Makedirs p m) = (\<lambda>w.
     let (a, w', t) = exec E m (made E w p) in (a, w', Made p # t))"
| "exec E (Print s m) = (\<lambda>w.
     let (a, w', t) = exec E m w in (a, w', Said s # t))"

definition result :: "'w env \<Rightarrow> 'a co \<Rightarrow> 'w \<Rightarrow> 'a" where
  "result E m w = fst (exec E m w)"

definition after :: "'w env \<Rightarrow> 'a co \<Rightarrow> 'w \<Rightarrow> 'w" where
  "after E m w = fst (snd (exec E m w))"

definition trace :: "'w env \<Rightarrow> 'a co \<Rightarrow> 'w \<Rightarrow> event list" where
  "trace E m w = snd (snd (exec E m w))"

section \<open>\<open>ProjectInitializer\<close>\<close>

record initializer =
  project_name :: string
  repo_org :: string
  repositories :: pyval
  base_dir :: path
  commit_message :: "string option"
  excluded_repos :: "string list"
  remote_operation :: "string option"
  remote_name :: "string option"
  remote_url :: "string option"

text \<open>
  \<open>__init__\<close>. \<open>parent\<close> is what \<open>Path("..").resolve()\<close> gives;
  \<open>excluded_repos or []\<close> turns a missing list into the empty one. The semaphore is
  created in \<open>run\<close>.
\<close>

definition ProjectInitializer ::
  "(string \<Rightarrow> pyval option) \<Rightarrow> path \<Rightarrow> string \<Rightarrow> string \<Rightarrow> pyval \<Rightarrow> string option \<Rightarrow>
   string list option \<Rightarrow> string option \<Rightarrow> string option \<Rightarrow> string option \<Rightarrow> exn + initializer" where
  "ProjectInitializer parse parent pname org repos cmsg excl rop rname rurl =
     (case json_loads parse repos of
        Inl e \<Rightarrow> Inl e
      | Inr parsed \<Rightarrow>
          Inr \<lparr>project_name = pname, repo_org = org, repositories = parsed, base_dir = parent,
               commit_message = cmsg,
               excluded_repos = (case excl of None \<Rightarrow> [] | Some xs \<Rightarrow> xs),
               remote_operation = rop, remote_name = rname, remote_url = rurl\<rparr>)"

subsection \<open>The operations on one working copy\<close>

definition verify_git_ssh :: "bool co" where
  "verify_git_ssh =
     Spawn Ssh (\<lambda>r. case r of
        Raised \<Rightarrow> Print ''Error verifying Git SSH access: '' (Return False)
      | Exited rc out err \<Rightarrow>
          (case err of
             NotUtf8 \<Rightarrow> Print ''Error verifying Git SSH access: '' (Return False)
           | Utf8 t \<Rightarrow> Return (py_in ''successfully authenticated'' (py_lower t))))"

definition check_remote :: "path \<Rightarrow> string \<Rightarrow> bool co" where
  "check_remote repo_path expected_remote =
     Spawn (GitRemoteGetUrl repo_path) (\<lambda>r. case r of
        Raised \<Rightarrow> Return False
      | Exited rc out err \<Rightarrow>
          (case out of
             NotUtf8 \<Rightarrow> Return False
           | Utf8 t \<Rightarrow> Return (py_strip t = expected_remote)))"

definition update_repository :: "path \<Rightarrow> bool co" where
  "update_repository repo_path =
     Spawn (GitFetch repo_path) (\<lambda>r1. case r1 of
        Raised \<Rightarrow> Print ''Error updating repository: '' (Return False)
      | Exited rc1 out1 err1 \<Rightarrow>
          Spawn (GitRevParse repo_path) (\<lambda>r2. case r2 of
             Raised \<Rightarrow> Print ''Error updating repository: '' (Return False)
           | Exited rc2 out2 err2 \<Rightarrow>
               (case out2 of
                  NotUtf8 \<Rightarrow> Print ''Error updating repository: '' (Return False)
                | Utf8 t \<Rightarrow>
                    Spawn (GitPull repo_path (py_strip t)) (\<lambda>r3. case r3 of
                       Raised \<Rightarrow> Print ''Error updating repository: '' (Return False)
                     | Exited rc3 out3 err3 \<Rightarrow> Return True))))"

definition clone_repository :: "initializer \<Rightarrow> string \<Rightarrow> path \<Rightarrow> bool co" where
  "clone_repository self repo_name repo_path =
     Spawn (GitClone (''git@github.com:'' @ repo_org self @ ''/'' @ repo_name @ ''.git'') repo_path)
       (\<lambda>r. case r of
          Raised \<Rightarrow> Print ''Error cloning repository: '' (Return False)
        | Exited rc out err \<Rightarrow> Return True)"

definition get_current_branch :: "path \<Rightarrow> string co" where
  "get_current_branch repo_path =
     Spawn (GitRevParse repo_path) (\<lambda>r. case r of
        Raised \<Rightarrow> Print ''Error getting current branch: '' (Return ''main'')
      | Exited rc out err \<Rightarrow>
          (case out of
             NotUtf8 \<Rightarrow> Print ''Error getting current branch: '' (Return ''main'')
           | Utf8 t \<Rightarrow> Return (py_strip t)))"

definition checkout_branch :: "path \<Rightarrow> string \<Rightarrow> string option co" where
  "checkout_branch repo_path branch_name =
     Spawn (GitCheckout repo_path branch_name) (\<lambda>r. case r of
        Exited rc out err \<Rightarrow> Return (Some branch_name)
      | Raised \<Rightarrow>
          Spawn (GitCheckoutNew repo_path branch_name) (\<lambda>r'. case r' of
             Exited rc out err \<Rightarrow> Return (Some branch_name)
           | Raised \<Rightarrow>
               Print (''Error checking out/creating branch '' @ branch_name @ '': '') (Return None)))"

definition commit_changes :: "path \<Rightarrow> string \<Rightarrow> bool co" where
  "commit_changes repo_path message =
     Spawn (GitAdd repo_path) (\<lambda>r1. case r1 of
        Raised \<Rightarrow> Print ''Error committing changes: '' (Return False)
      | Exited rc1 out1 err1 \<Rightarrow>
          Spawn (GitCommit repo_path message) (\<lambda>r2. case r2 of
             Raised \<Rightarrow> Print ''Error committing changes: '' (Return False)
           | Exited rc2 out2 err2 \<Rightarrow> Return True))"

definition add_remote :: "path \<Rightarrow> string \<Rightarrow> string \<Rightarrow> bool co" where
  "add_remote repo_path rname rurl =
     Spawn (GitRemoteAdd repo_path rname rurl) (\<lambda>r. case r of
        Raised \<Rightarrow> Print ''Error adding remote: '' (Return False)
      | Exited rc out err \<Rightarrow> Return True)"

definition update_remote :: "path \<Rightarrow> string \<Rightarrow> string \<Rightarrow> bool co" where
  "update_remote repo_path rname rurl =
     Spawn (GitRemoteSetUrl repo_path rname rurl) (\<lambda>r. case r of
        Raised \<Rightarrow> Print ''Error updating remote: '' (Return False)
      | Exited rc out err \<Rightarrow> Return True)"

definition delete_remote :: "path \<Rightarrow> string \<Rightarrow> bool co" where
  "delete_remote repo_path rname =
     Spawn (GitRemoteRemove repo_path rname) (\<lambda>r. case r of
        Raised \<Rightarrow> Print ''Error deleting remote: '' (Return False)
      | Exited rc out err \<Rightarrow> Return True)"

subsection \<open>\<open>process_repository\<close>\<close>

text \<open>
  The body of \<open>process_repository\<close> in its three parts: bringing the local copy up
  (the \<open>if repo_path.exists()\<close> statement), the remote operation, and the commit.
\<close>

definition expected_remote_of :: "initializer \<Rightarrow> string \<Rightarrow> string" where
  "expected_remote_of self repo_name = ''git@github.com:'' @ repo_org self @ ''/'' @ repo_name @ ''.git''"

definition checkout_line :: "string \<Rightarrow> string \<Rightarrow> string option \<Rightarrow> string" where
  "checkout_line repo_name target_branch checked_out_branch =
     (if truthy checked_out_branch
      then ok_mark @ '' '' @ repo_name @ '' checked out to branch '' @ fmt checked_out_branch
      else fail_mark @ '' Failed to checkout branch '' @ target_branch @ '' for '' @ repo_name)"

definition local_copy :: "initializer \<Rightarrow> string \<Rightarrow> path \<Rightarrow> string \<Rightarrow> unit co" where
  "local_copy self repo_name repo_path target_branch =
     Exists repo_path (\<lambda>there.
       if there then
         Print (''Repository '' @ repo_name @ '' exists, verifying...'')
           (bnd (check_remote repo_path (expected_remote_of self repo_name)) (\<lambda>matches.
              if matches then
                Print (''Updating '' @ repo_name @ ''...'')
                  (bnd (checkout_branch repo_path target_branch) (\<lambda>checked_out_branch.
                   Print (checkout_line repo_name target_branch checked_out_branch)
                  (bnd (update_repository repo_path) (\<lambda>updated.
                   Print (if updated then ok_mark @ '' '' @ repo_name @ '' updated successfully''
                          else fail_mark @ '' Failed to update '' @ repo_name)
                  (Return ())))))
              else
                Print (fail_mark @ '' Remote mismatch for '' @ repo_name)
                  (Print (''Expected: '' @ expected_remote_of self repo_name)
                  (Print ''Please check the repository manually'' (Return ())))))
       else
         Print (''Cloning '' @ repo_name @ ''...'')
           (bnd (clone_repository self repo_name repo_path) (\<lambda>cloned.
              if cloned then
                Print (ok_mark @ '' '' @ repo_name @ '' cloned successfully'')
                  (bnd (checkout_branch repo_path target_branch) (\<lambda>checked_out_branch.
                   Print (checkout_line repo_name target_branch checked_out_branch) (Return ())))
              else
                Print (fail_mark @ '' Failed to clone '' @ repo_name) (Return ()))))"

definition manage_remote :: "initializer \<Rightarrow> string \<Rightarrow> path \<Rightarrow> unit co" where
  "manage_remote self repo_name repo_path =
     (if truthy (remote_operation self) \<and> repo_name \<notin> set (excluded_repos self) then
        Print (''Managing remote in '' @ repo_name @ ''...'')
          (let effective_remote_url =
                 (if truthy (remote_url self) then Some (fmt (remote_url self) @ repo_name) else None)
           in
           if remote_operation self = Some ''add'' then
             (if truthy (remote_name self) \<and> truthy effective_remote_url then
                bnd (add_remote repo_path (fmt (remote_name self)) (fmt effective_remote_url)) (\<lambda>added.
                  Print (if added
                         then ok_mark @ '' Added remote '' @ fmt (remote_name self) @ '' to '' @ repo_name
                              @ '' with URL '' @ fmt effective_remote_url
                         else fail_mark @ '' Failed to add remote '' @ fmt (remote_name self) @ '' to ''
                              @ repo_name)
                    (Return ()))
              else
                Print (fail_mark @ '' Remote name and URL are required for adding a remote.'')
                  (Return ()))
           else if remote_operation self = Some ''update'' then
             (if truthy (remote_name self) \<and> truthy effective_remote_url then
                bnd (update_remote repo_path (fmt (remote_name self)) (fmt effective_remote_url)) (\<lambda>updated.
                  Print (if updated
                         then ok_mark @ '' Updated remote '' @ fmt (remote_name self) @ '' in '' @ repo_name
                              @ '' with URL '' @ fmt effective_remote_url
                         else fail_mark @ '' Failed to update remote '' @ fmt (remote_name self) @ '' in ''
                              @ repo_name)
                    (Return ()))
              else
                Print (fail_mark @ '' Remote name and URL are required for updating a remote.'')
                  (Return ()))
           else if remote_operation self = Some ''delete'' then
             (if truthy (remote_name self) then
                bnd (delete_remote repo_path (fmt (remote_name self))) (\<lambda>deleted.
                  Print (if deleted
                         then ok_mark @ '' Deleted remote '' @ fmt (remote_name self) @ '' from '' @ repo_name
                         else fail_mark @ '' Failed to delete remote '' @ fmt (remote_name self) @ '' from ''
                              @ repo_name)
                    (Return ()))
              else
                Print (fail_mark @ '' Remote name is required for deleting a remote.'') (Return ()))
           else
             Print (fail_mark @ '' Invalid remote operation: '' @ fmt (remote_operation self)) (Return ()))
      else Return ())"

definition commit_step :: "initializer \<Rightarrow> string \<Rightarrow> path \<Rightarrow> unit co" where
  "commit_step self repo_name repo_path =
     (if truthy (commit_message self) \<and> repo_name \<notin> set (excluded_repos self) then
        Print (''Committing changes in '' @ repo_name @ ''...'')
          (bnd (commit_changes repo_path (fmt (commit_message self))) (\<lambda>committed.
             Print (if committed then ok_mark @ '' '' @ repo_name @ '' committed successfully''
                    else fail_mark @ '' Failed to commit changes in '' @ repo_name)
               (Return ())))
      else Return ())"

text \<open>
  \<open>cwd\<close> is \<open>Path(os.getcwd())\<close>, the directory the tool was started in. The result is
  \<open>Inl\<close> of the exception that leaves the coroutine, or \<open>Inr ()\<close> when it returns.
\<close>

definition process_repository :: "initializer \<Rightarrow> path \<Rightarrow> pyval \<Rightarrow> (exn + unit) co" where
  "process_repository self cwd repo =
     (case repo_name_of repo of
        Inl e \<Rightarrow> Return (Inl e)
      | Inr repo_name \<Rightarrow>
          (let repo_path = Div (base_dir self) repo_name in
           Print (nl @ ''Processing repository: '' @ repo_name)
             (bnd (get_current_branch cwd) (\<lambda>target_branch.
              bnd (local_copy self repo_name repo_path target_branch) (\<lambda>_.
              bnd (manage_remote self repo_name repo_path) (\<lambda>_.
              bnd (commit_step self repo_name repo_path) (\<lambda>_.
              Return (Inr ()))))))))"

subsection \<open>\<open>run\<close>\<close>

text \<open>
  \<open>asyncio.gather(*tasks)\<close>, here with the reconciliations taken one after the other in
  the order of the catalogue; an exception that leaves one of them leaves \<open>gather\<close>. The
  interleaving of the tasks under the semaphore is the subject of the next section.
\<close>

fun gather :: "(exn + unit) co list \<Rightarrow> (exn + unit) co" where
  "gather [] = Return (Inr ())"
| "gather (t # ts) = bnd t (\<lambda>r. case r of Inl e \<Rightarrow> Return (Inl e) | Inr _ \<Rightarrow> gather ts)"

definition run :: "initializer \<Rightarrow> path \<Rightarrow> (exn + unit) co" where
  "run self cwd =
     Print (''Initializing project: '' @ project_name self)
       (Makedirs (base_dir self)
       (Print (nl @ ''Verifying Git SSH access to GitHub...'')
       (bnd verify_git_ssh (\<lambda>verified.
          if \<not> verified then
            Print (fail_mark @ '' Failed to verify Git SSH access to GitHub'')
              (Print ''Please check your SSH configuration'' (Return (Inl (SystemExit 1))))
          else
            Print (ok_mark @ '' Git SSH access verified'')
              (case py_iter (repositories self) of
                 Inl e \<Rightarrow> Return (Inl e)
               | Inr repos \<Rightarrow>
                   bnd (gather (map (process_repository self cwd) repos)) (\<lambda>r. case r of
                      Inl e \<Rightarrow> Return (Inl e)
                    | Inr _ \<Rightarrow>
                        Print (nl @ ok_mark @ '' Project initialization complete!'')
                          (Return (Inr ()))))))))"

text \<open>
  The status the interpreter exits with: 0 when the program returns, the argument of
  \<open>sys.exit\<close>, and 1 for any other exception that nobody catches.
\<close>

fun exit_status :: "exn + unit \<Rightarrow> int" where
  "exit_status (Inr _) = 0"
| "exit_status (Inl (SystemExit n)) = n"
| "exit_status (Inl _) = 1"

subsection \<open>\<open>main\<close>\<close>

record cli =
  debug :: bool
  commit :: bool
  message :: "string option"
  exclude :: "string list option"
  cli_remote_operation :: "string option"
  cli_remote_name :: "string option"
  cli_remote_url :: "string option"

text \<open>
  \<open>main\<close> writes its configuration as a dict display whose \<open>repositories\<close> value
  is a list display of six dict displays. That text was produced as JSON: it spells the
  truth values and the missing value \<open>true\<close>, \<open>false\<close> and \<open>null\<close>, which in
  Python are names. So the displays are kept as expressions: a literal, a name, a list
  display or a dict display.
\<close>

datatype pyexpr =
    Lit pyval
  | Name string
  | ListE "pyexpr list"
  | DictE "(string \<times> pyexpr) list"

text \<open>
  Evaluation, left to right. Where \<open>main\<close> evaluates the configuration the names bound
  are the imports, \<open>ProjectInitializer\<close>, \<open>main\<close>, \<open>parser\<close> and \<open>args\<close>,
  and the builtins; of the names that denote a value of \<open>pyval\<close> these are \<open>True\<close>,
  \<open>False\<close> and \<open>None\<close>. A name that is not bound raises \<open>NameError\<close>.
\<close>

fun eval :: "pyexpr \<Rightarrow> exn + pyval"
  and eval_list :: "pyexpr list \<Rightarrow> exn + pyval list"
  and eval_items :: "(string \<times> pyexpr) list \<Rightarrow> exn + (string \<times> pyval) list" where
  "eval (Lit v) = Inr v"
| "eval (Name n) =
     (if n = ''True'' then Inr (PBool True)
      else if n = ''False'' then Inr (PBool False)
      else if n = ''None'' then Inr PNone
      else Inl NameError)"
| "eval (ListE es) = (case eval_list es of Inl x \<Rightarrow> Inl x | Inr vs \<Rightarrow> Inr (PList vs))"
| "eval (DictE kes) = (case eval_items kes of Inl x \<Rightarrow> Inl x | Inr kvs \<Rightarrow> Inr (PDict kvs))"
| "eval_list [] = Inr []"
| "eval_list (e # es) =
     (case eval e of
        Inl x \<Rightarrow> Inl x
      | Inr v \<Rightarrow> (case eval_list es of Inl x \<Rightarrow> Inl x | Inr vs \<Rightarrow> Inr (v # vs)))"
| "eval_items [] = Inr []"
| "eval_items (ke # kes) =
     (case eval (snd ke) of
        Inl x \<Rightarrow> Inl x
      | Inr v \<Rightarrow> (case eval_items kes of Inl x \<Rightarrow> Inl x | Inr kvs \<Rightarrow> Inr ((fst ke, v) # kvs)))"

text \<open>
  One descriptor as the source writes it. Of the some fifty keys, six are written out here,
  in the order of the source; the first name met is \<open>true\<close>.
\<close>

definition descriptor_display :: "string \<Rightarrow> pyexpr" where
  "descriptor_display n =
     DictE [(''additional_codeowners'', ListE []), (''archive_on_destroy'', Name ''true''),
            (''archived'', Name ''false''), (''github_default_branch'', Lit (PStr ''main'')),
            (''name'', Lit (PStr n)), (''prefix'', Name ''null'')]"

definition repositories_display :: pyexpr where
  "repositories_display =
     ListE [descriptor_display ''terraform-gcp-compute'', descriptor_display ''terraform-gcp-networking'',
            descriptor_display ''terraform-gcp-storage'', descriptor_display ''terraform-gcp-monitoring'',
            descriptor_display ''terraform-gcp-security'', descriptor_display ''gcp-deployment'']"

text \<open>
  \<open>main\<close> after the arguments are parsed: it evaluates the configuration (the project
  name and the organisation are string literals, the repositories the display above); with
  \<open>--debug\<close> it prints it (the dump itself is one line here); then \<open>main_async\<close>
  builds the initializer from it and awaits \<open>run\<close>.
\<close>

definition main :: "(string \<Rightarrow> pyval option) \<Rightarrow> path \<Rightarrow> path \<Rightarrow> cli \<Rightarrow> (exn + unit) co" where
  "main parse parent cwd args =
     (case eval repositories_display of
        Inl e \<Rightarrow> Return (Inl e)
      | Inr repos \<Rightarrow>
          bnd (if debug args
               then Print ''Configuration:'' (Print ''json.dumps(config, indent=2)'' (Return ()))
               else Return ()) (\<lambda>_.
            case ProjectInitializer parse parent ''gcp-kubernetes'' ''HappyPathway'' repos
                   (if commit args then message args else None)
                   (Some (case exclude args of None \<Rightarrow> [] | Some xs \<Rightarrow> xs))
                   (cli_remote_operation args) (cli_remote_name args) (cli_remote_url args) of
              Inl e \<Rightarrow> Return (Inl e)
            | Inr initializer \<Rightarrow> run initializer cwd))"

text \<open>
  The catalogue that the embedded text denotes when it is read as JSON, which is what
  \<open>__init__\<close> expects to parse: a list of six dictionaries. Of the keys of each, three
  are written out; \<open>process_repository\<close> reads \<open>name\<close> only.
\<close>

definition descriptor :: "string \<Rightarrow> pyval" where
  "descriptor n = PDict [(''github_default_branch'', PStr ''main''), (''name'', PStr n), (''prefix'', PNone)]"

definition catalogue :: "pyval list" where
  "catalogue =
     [descriptor ''terraform-gcp-compute'', descriptor ''terraform-gcp-networking'',
      descriptor ''terraform-gcp-storage'', descriptor ''terraform-gcp-monitoring'',
      descriptor ''terraform-gcp-security'', descriptor ''gcp-deployment'']"

definition config_repositories :: pyval where
  "config_repositories = PList catalogue"

section \<open>The tasks under the semaphore\<close>

text \<open>
  \<open>process_repository\<close> is \<open>async with self.semaphore:\<close> around its whole body, and
  \<open>run\<close> sets \<open>self.semaphore = asyncio.Semaphore(5)\<close>. A task is waiting at the
  \<open>async with\<close>, or inside it with the rest of its body to run, or gone with the result
  of its body (an exception or a return).
\<close>

datatype slot =
    Waiting "(exn + unit) co"
  | Active "(exn + unit) co"
  | Gone "exn + unit"

record 'w pool =
  permits :: nat
  slots :: "slot list"
  world :: 'w
  history :: "(nat \<times> event) list"

text \<open>One interaction of a coroutine with the world.\<close>

fun resume :: "'w env \<Rightarrow> 'a co \<Rightarrow> 'w \<Rightarrow> (event \<times> 'a co \<times> 'w) option" where
  "resume E (Return a) w = None"
| "resume E (Spawn c k) w = (let (r, w') = run_cmd E w c in Some (Ran c r, k r, w'))"
| "resume E (Exists p k) w = (let b = path_exists E w p in Some (Asked p b, k b, w))"
| "resume E (Makedirs p m) w = Some (Made p, m, made E w p)"
| "resume E (Print s m) w = Some (Said s, m, w)"

text \<open>
  The event loop lets task \<open>i\<close> move: a waiting task enters when the semaphore's value is
  positive and takes one permit; a task inside performs its next interaction; a task whose
  body has ended, by return or by exception, leaves through \<open>__aexit__\<close>, which gives
  the permit back. \<open>None\<close> when task \<open>i\<close> cannot move.
\<close>

definition move :: "'w env \<Rightarrow> 'w pool \<Rightarrow> nat \<Rightarrow> 'w pool option" where
  "move E s i =
     (if i < length (slots s) then
        (case slots s ! i of
           Waiting m \<Rightarrow>
             if 0 < permits s
             then Some (s\<lparr>permits := permits s - 1, slots := (slots s)[i := Active m]\<rparr>)
             else None
         | Active m \<Rightarrow>
             (case m of
                Return r \<Rightarrow> Some (s\<lparr>permits := permits s + 1, slots := (slots s)[i := Gone r]\<rparr>)
              | _ \<Rightarrow>
                  (case resume E m (world s) of
                     None \<Rightarrow> None
                   | Some (ev, m', w') \<Rightarrow>
                       Some (s\<lparr>slots := (slots s)[i := Active m'], world := w',
                                history := history s @ [(i, ev)]\<rparr>)))
         | Gone r \<Rightarrow> None)
      else None)"

text \<open>A schedule is the order in which the loop lets the tasks move.\<close>

fun play :: "'w env \<Rightarrow> nat list \<Rightarrow> 'w pool \<Rightarrow> 'w pool option" where
  "play E [] s = Some s"
| "play E (i # sched) s = (case move E s i of None \<Rightarrow> None | Some s' \<Rightarrow> play E sched s')"

definition launch :: "initializer \<Rightarrow> path \<Rightarrow> pyval list \<Rightarrow> 'w \<Rightarrow> 'w pool" where
  "launch self cwd repos w =
     \<lparr>permits = 5, slots = map (\<lambda>repo. Waiting (process_repository self cwd repo)) repos,
      world = w, history = []\<rparr>"

definition is_active :: "slot \<Rightarrow> bool" where
  "is_active t = (case t of Active m \<Rightarrow> True | _ \<Rightarrow> False)"

definition is_waiting :: "slot \<Rightarrow> bool" where
  "is_waiting t = (case t of Waiting m \<Rightarrow> True | _ \<Rightarrow> False)"

definition active :: "'w pool \<Rightarrow> nat" where
  "active s = length (filter is_active (slots s))"

text \<open>A task that still waits at the semaphore has done nothing.\<close>

definition idle_while_waiting :: "'w pool \<Rightarrow> bool" where
  "idle_while_waiting s =
     list_all (\<lambda>ie. fst ie < length (slots s) \<and> \<not> is_waiting (slots s ! fst ie)) (history s)"

section \<open>Reading a history\<close>



definition is_pull :: "event \<Rightarrow> bool" where
  "is_pull e = (case e of Ran c r \<Rightarrow> (case c of GitPull p b \<Rightarrow> True | _ \<Rightarrow> False) | _ \<Rightarrow> False)"


definition is_remote_change :: "event \<Rightarrow> bool" where
  "is_remote_change e =
     (case e of
        Ran c r \<Rightarrow>
          (case c of
             GitRemoteAdd p n u \<Rightarrow> True
           | GitRemoteSetUrl p n u \<Rightarrow> True
           | GitRemoteRemove p n \<Rightarrow> True
           | _ \<Rightarrow> False)
      | _ \<Rightarrow> False)"

definition is_commit :: "event \<Rightarrow> bool" where
  "is_commit e =
     (case e of
        Ran c r \<Rightarrow> (case c of GitAdd p \<Rightarrow> True | GitCommit p m \<Rightarrow> True | _ \<Rightarrow> False)
      | _ \<Rightarrow> False)"

definition is_git :: "event \<Rightarrow> bool" where
  "is_git e = (case e of Ran c r \<Rightarrow> (case c of Ssh \<Rightarrow> False | _ \<Rightarrow> True) | _ \<Rightarrow> False)"

definition raised :: "event \<Rightarrow> bool" where
  "raised e = (case e of Ran c r \<Rightarrow> (case r of Raised \<Rightarrow> True | _ \<Rightarrow> False) | _ \<Rightarrow> False)"

text \<open>The branch name \<open>git rev-parse\<close> printed cannot be decoded.\<close>

definition branch_undecodable :: "event \<Rightarrow> bool" where
  "branch_undecodable e =
     (case e of
        Ran c r \<Rightarrow>
          (case c of
             GitRevParse p \<Rightarrow>
               (case r of Exited rc out err \<Rightarrow> (case out of NotUtf8 \<Rightarrow> True | _ \<Rightarrow> False) | _ \<Rightarrow> False)
           | _ \<Rightarrow> False)
      | _ \<Rightarrow> False)"

text \<open>The branch a checkout command names, and the URL a remote command carries.\<close>

definition checkout_target :: "event \<Rightarrow> string option" where
  "checkout_target e =
     (case e of
        Ran c r \<Rightarrow> (case c of GitCheckout p b \<Rightarrow> Some b | GitCheckoutNew p b \<Rightarrow> Some b | _ \<Rightarrow> None)
      | _ \<Rightarrow> None)"

definition targets :: "event list \<Rightarrow> string list" where
  "targets tr = List.map_filter checkout_target tr"

definition same_target :: "event list \<Rightarrow> bool" where
  "same_target tr = (length (remdups (targets tr)) \<le> 1)"

definition remote_url_used :: "event \<Rightarrow> string option" where
  "remote_url_used e =
     (case e of
        Ran c r \<Rightarrow>
          (case c of GitRemoteAdd p n u \<Rightarrow> Some u | GitRemoteSetUrl p n u \<Rightarrow> Some u | _ \<Rightarrow> None)
      | _ \<Rightarrow> None)"


text \<open>Every descriptor of the catalogue is a dictionary with a string under \<open>name\<close>.\<close>

definition named :: "pyval \<Rightarrow> bool" where
  "named repo = (case repo_name_of repo of Inl e \<Rightarrow> False | Inr n \<Rightarrow> True)"

definition well_formed :: "pyval \<Rightarrow> bool" where
  "well_formed v = (case v of PList xs \<Rightarrow> list_all named xs | _ \<Rightarrow> False)"

section \<open>Worlds to run in\<close>

text \<open>
  A world that counts the commands run so far: \<open>answer n c\<close> is the outcome of command
  \<open>c\<close> when \<open>n\<close> commands came before it, and \<open>there\<close> says which paths exist.
\<close>

definition scripted :: "(nat \<Rightarrow> cmd \<Rightarrow> outcome) \<Rightarrow> (path \<Rightarrow> bool) \<Rightarrow> nat env" where
  "scripted answer there =
     \<lparr>run_cmd = (\<lambda>n c. (answer n c, Suc n)), path_exists = (\<lambda>n p. there p), made = (\<lambda>n p. n)\<rparr>"

definition quiet :: outcome where
  "quiet = Exited 0 (Utf8 []) (Utf8 [])"

text \<open>
  Every command ends quietly with status 0, except that the branch name printed by
  \<open>git rev-parse --abbrev-ref HEAD\<close> is not valid UTF-8 (a branch named in Latin-1,
  say).
\<close>

definition undecodable_world :: "nat env" where
  "undecodable_world =
     scripted (\<lambda>n c. case c of GitRevParse p \<Rightarrow> Exited 0 NotUtf8 (Utf8 []) | _ \<Rightarrow> quiet) (\<lambda>p. True)"

text \<open>
  A world in which \<open>ssh\<close> is greeted by GitHub, the tool's working copy is on the
  branch \<open>feature\<close>, every working copy has the expected \<open>origin\<close>, and every other
  command ends quietly with status 0.
\<close>

definition answers :: "cmd \<Rightarrow> outcome" where
  "answers c =
     (case c of
        Ssh \<Rightarrow> Exited 1 (Utf8 [])
                 (Utf8 ''Hi dev! You have successfully authenticated, but GitHub does not provide shell access.'')
      | GitRevParse p \<Rightarrow> Exited 0 (Utf8 (''feature'' @ nl)) (Utf8 [])
      | GitRemoteGetUrl p \<Rightarrow>
          (case p of
             Div b n \<Rightarrow> Exited 0 (Utf8 (''git@github.com:HappyPathway/'' @ n @ ''.git'' @ nl)) (Utf8 [])
           | _ \<Rightarrow> quiet)
      | _ \<Rightarrow> quiet)"

text \<open>No working copy is there yet; all of them are there.\<close>

definition fresh_world :: "nat env" where
  "fresh_world = scripted (\<lambda>n. answers) (\<lambda>p. False)"

definition cloned_world :: "nat env" where
  "cloned_world = scripted (\<lambda>n. answers) (\<lambda>p. True)"

text \<open>
  An initializer built from the catalogue given as JSON text, with a commit message, a
  remote to add and one repository excluded; and the directory the tool is started in.
\<close>

definition demo :: initializer where
  "demo =
     \<lparr>project_name = ''gcp-kubernetes'', repo_org = ''HappyPathway'',
      repositories = config_repositories, base_dir = Resolved ''/home/dev'',
      commit_message = Some ''sync'', excluded_repos = [''gcp-deployment''],
      remote_operation = Some ''add'', remote_name = Some ''mirror'',
      remote_url = Some ''git@mirror.example.com:ops/''\<rparr>"

definition workdir :: path where
  "workdir = Resolved ''/home/dev/gcp-kubernetes''"

text \<open>The same initializer when the remote is to be updated.\<close>

definition updating :: initializer where
  "updating = demo\<lparr>remote_operation := Some ''update''\<rparr>"

text \<open>The same initializer when no \<open>--remote-url\<close> was given.\<close>

definition no_url :: initializer where
  "no_url = demo\<lparr>remote_url := None\<rparr>"

text \<open>
  The same world with nothing cloned yet, except that from the third command of the run on
  \<open>git rev-parse\<close> cannot be started any more (the spawn raises, as it does when the
  process table or the descriptors are exhausted).
\<close>

definition flaky_world :: "nat env" where
  "flaky_world =
     scripted (\<lambda>n c. case c of GitRevParse p \<Rightarrow> (if n < 2 then answers c else Raised) | _ \<Rightarrow> answers c)
       (\<lambda>p. False)"

text \<open>A catalogue of two repositories.\<close>

definition pair :: initializer where
  "pair = demo\<lparr>repositories := PList [descriptor ''terraform-gcp-compute'', descriptor ''gcp-deployment'']\<rparr>"

text \<open>
  A world in which GitHub does not greet \<open>ssh\<close>; and one in which it does, but no git
  command can even be started.
\<close>

definition locked_out :: "nat env" where
  "locked_out =
     scripted (\<lambda>n c. Exited 255 (Utf8 []) (Utf8 ''git@github.com: Permission denied (publickey).''))
       (\<lambda>p. False)"

definition failing_world :: "nat env" where
  "failing_world = scripted (\<lambda>n c. case c of Ssh \<Rightarrow> answers Ssh | _ \<Rightarrow> Raised) (\<lambda>p. False)"

text \<open>A parser that knows one JSON text, the empty array.\<close>

definition tiny_parse :: "string \<Rightarrow> pyval option" where
  "tiny_parse t = (if t = ''[]'' then Some (PList []) else None)"

text \<open>
  The permits handed out are exactly those of the tasks inside the \<open>async with\<close>, and no
  waiting task has acted.
\<close>

definition balanced :: "'w pool \<Rightarrow> bool" where
  "balanced s = (permits s + active s = 5 \<and> idle_while_waiting s)"

section \<open>Properties of every history\<close>

text \<open>
  \<open>always P m\<close>: whatever the world answers, every interaction of \<open>m\<close> satisfies
  \<open>P\<close>.
\<close>

primrec always :: "(event \<Rightarrow> bool) \<Rightarrow> 'a co \<Rightarrow> bool" where
  "always P (Return a) = True"
| "always P (Spawn c k) = (\<forall>r. P (Ran c r) \<and> always P (k r))"
| "always P (Exists p k) = (\<forall>b. P (Asked p b) \<and> always P (k b))"
| "always P (Makedirs p m) = (P (Made p) \<and> always P m)"
| "always P (Print s m) = (P (Said s) \<and> always P m)"

section \<open>Running a coroutine\<close>

lemma exec_bnd:
  "exec E (bnd m f) w =
     (case exec E m w of (a, w1, t1) \<Rightarrow>
        (case exec E (f a) w1 of (b, w2, t2) \<Rightarrow> (b, w2, t1 @ t2)))"
  by (induction m arbitrary: w) (auto simp: Let_def split: prod.splits)

lemma result_bnd: "result E (bnd m f) w = result E (f (result E m w)) (after E m w)"
  by (simp add: result_def after_def exec_bnd split: prod.splits)

lemma after_bnd: "after E (bnd m f) w = after E (f (result E m w)) (after E m w)"
  by (simp add: result_def after_def exec_bnd split: prod.splits)

lemma trace_bnd: "trace E (bnd m f) w = trace E m w @ trace E (f (result E m w)) (after E m w)"
  by (simp add: result_def after_def trace_def exec_bnd split: prod.splits)

lemma result_simps:
  "result E (Return a) w = a"
  "result E (Spawn c k) w = result E (k (fst (run_cmd E w c))) (snd (run_cmd E w c))"
  "result E (Exists p kb) w = result E (kb (path_exists E w p)) w"
  "result E (Makedirs p m) w = result E m (made E w p)"
  "result E (Print s m) w = result E m w"
  by (simp_all add: result_def Let_def split: prod.splits)

lemma after_simps:
  "after E (Return a) w = w"
  "after E (Spawn c k) w = after E (k (fst (run_cmd E w c))) (snd (run_cmd E w c))"
  "after E (Exists p kb) w = after E (kb (path_exists E w p)) w"
  "after E (Makedirs p m) w = after E m (made E w p)"
  "after E (Print s m) w = after E m w"
  by (simp_all add: after_def Let_def split: prod.splits)

lemma trace_simps:
  "trace E (Return a) w = []"
  "trace E (Spawn c k) w =
     Ran c (fst (run_cmd E w c)) # trace E (k (fst (run_cmd E w c))) (snd (run_cmd E w c))"
  "trace E (Exists p kb) w = Asked p (path_exists E w p) # trace E (kb (path_exists E w p)) w"
  "trace E (Makedirs p m) w = Made p # trace E m (made E w p)"
  "trace E (Print s m) w = Said s # trace E m w"
  by (simp_all add: trace_def Let_def split: prod.splits)

lemmas run_simps = result_simps after_simps trace_simps result_bnd after_bnd trace_bnd

lemma scripted_simps:
  "run_cmd (scripted answer there) n c = (answer n c, Suc n)"
  "path_exists (scripted answer there) n p = there p"
  "made (scripted answer there) n p = n"
  by (simp_all add: scripted_def)

lemmas concrete_simps =
  run_simps scripted_simps cloned_world_def fresh_world_def answers_def quiet_def demo_def
  workdir_def descriptor_def repo_name_of_def process_repository_def expected_remote_of_def
  get_current_branch_def check_remote_def checkout_branch_def update_repository_def
  clone_repository_def commit_changes_def add_remote_def update_remote_def delete_remote_def
  local_copy_def manage_remote_def commit_step_def checkout_line_def
  py_strip_def py_isspace_def wide2_def wide3_def nl_def Let_def

section \<open>\<open>checkout_branch\<close>\<close>

text \<open>
  What \<open>checkout_branch\<close> does, outcome by outcome: the creation from
  \<open>origin/main\<close> is tried exactly when the first command could not be started or awaited,
  and \<open>None\<close> is returned exactly when that happened to both commands.
\<close>

lemma checkout_branch_result:
  "result E (checkout_branch p b) w =
     (if fst (run_cmd E w (GitCheckout p b)) = Raised
         \<and> fst (run_cmd E (snd (run_cmd E w (GitCheckout p b))) (GitCheckoutNew p b)) = Raised
      then None else Some b)"
  by (simp add: checkout_branch_def run_simps split: outcome.splits)

text \<open>
  C4. \<open>git checkout feature\<close> ends with status 1 because there is no such branch.
  \<open>checkout_branch\<close> reports \<open>feature\<close> as checked out, and the history shows the
  one command: the branch is not created from \<open>origin/main\<close>.
\<close>

theorem checkout_branch_missing_branch:
  "exec (scripted (\<lambda>n c. Exited 1 (Utf8 []) (Utf8 ''error: pathspec did not match'')) (\<lambda>p. True))
        (checkout_branch (Div (Resolved ''/work'') ''repo'') ''feature'') 0
   = (Some ''feature'', 1,
      [Ran (GitCheckout (Div (Resolved ''/work'') ''repo'') ''feature'')
           (Exited 1 (Utf8 []) (Utf8 ''error: pathspec did not match''))])"
  by (simp add: checkout_branch_def scripted_simps)

section \<open>What an operation returns\<close>

text \<open>
  C9, as stated, fails for \<open>update_repository\<close>: every subprocess is started and awaited
  without an exception, and yet the operation returns \<open>False\<close> (and never pulls), because
  the branch name cannot be decoded and \<open>.decode()\<close> raises inside the \<open>try\<close>.
\<close>

theorem update_repository_undecodable_branch:
  "result undecodable_world (update_repository (Div (Resolved ''/work'') ''repo'')) 0 = False
   \<and> \<not> list_ex raised (trace undecodable_world (update_repository (Div (Resolved ''/work'') ''repo'')) 0)
   \<and> \<not> list_ex is_pull (trace undecodable_world (update_repository (Div (Resolved ''/work'') ''repo'')) 0)"
  by (simp add: update_repository_def undecodable_world_def run_simps scripted_simps quiet_def
        raised_def is_pull_def)

text \<open>
  C9, amended. \<open>clone_repository\<close>, \<open>commit_changes\<close> and \<open>add_remote\<close> return
  \<open>True\<close> exactly when no start or await of a subprocess raised, whatever the exit
  statuses; \<open>update_repository\<close> returns \<open>True\<close> exactly when no start or await raised
  and the output of \<open>git rev-parse --abbrev-ref HEAD\<close> could be decoded.
\<close>

theorem operations_result:
  "result E (clone_repository self n p) w = (\<not> list_ex raised (trace E (clone_repository self n p) w))
   \<and> result E (commit_changes p m) w = (\<not> list_ex raised (trace E (commit_changes p m) w))
   \<and> result E (add_remote p rn ru) w = (\<not> list_ex raised (trace E (add_remote p rn ru) w))
   \<and> result E (update_repository p) w =
         (\<not> list_ex raised (trace E (update_repository p) w)
          \<and> \<not> list_ex branch_undecodable (trace E (update_repository p) w))"
proof -
  have clone: "result E (clone_repository self n p) w
      = (\<not> list_ex raised (trace E (clone_repository self n p) w))"
    by (simp add: clone_repository_def run_simps raised_def split: outcome.splits)
  have commit: "result E (commit_changes p m) w = (\<not> list_ex raised (trace E (commit_changes p m) w))"
    by (simp add: commit_changes_def run_simps raised_def split: outcome.splits)
  have add: "result E (add_remote p rn ru) w = (\<not> list_ex raised (trace E (add_remote p rn ru) w))"
    by (simp add: add_remote_def run_simps raised_def split: outcome.splits)
  have update: "result E (update_repository p) w =
         (\<not> list_ex raised (trace E (update_repository p) w)
          \<and> \<not> list_ex branch_undecodable (trace E (update_repository p) w))"
    by (simp add: update_repository_def run_simps raised_def branch_undecodable_def
             split: outcome.splits piped.splits)
  from clone commit add update show ?thesis by blast
qed

section \<open>The commands each operation can run\<close>

lemma always_bnd: "always P m \<Longrightarrow> (\<And>a. always P (f a)) \<Longrightarrow> always P (bnd m f)"
  by (induction m) auto

lemma always_trace: "always P m \<Longrightarrow> e \<in> set (trace E m w) \<Longrightarrow> P e"
proof (induction m arbitrary: w)
  case (Return a)
  then show ?case by (simp add: trace_simps)
next
  case (Spawn c k)
  then show ?case by (auto simp: trace_simps)
next
  case (Exists p k)
  then show ?case by (auto simp: trace_simps)
next
  case (Makedirs p m)
  then show ?case by (auto simp: trace_simps)
next
  case (Print s m)
  then show ?case by (auto simp: trace_simps)
qed

lemma always_get_current_branch:
  "(\<And>r. P (Ran (GitRevParse p) r)) \<Longrightarrow> (\<And>s. P (Said s)) \<Longrightarrow> always P (get_current_branch p)"
  by (simp add: get_current_branch_def split: outcome.splits piped.splits)

lemma always_check_remote:
  "(\<And>r. P (Ran (GitRemoteGetUrl p) r)) \<Longrightarrow> always P (check_remote p x)"
  by (simp add: check_remote_def split: outcome.splits piped.splits)

lemma always_checkout_branch:
  "(\<And>r. P (Ran (GitCheckout p b) r)) \<Longrightarrow> (\<And>r. P (Ran (GitCheckoutNew p b) r)) \<Longrightarrow> (\<And>s. P (Said s))
   \<Longrightarrow> always P (checkout_branch p b)"
  by (simp add: checkout_branch_def split: outcome.splits piped.splits)

lemma always_update_repository:
  "(\<And>r. P (Ran (GitFetch p) r)) \<Longrightarrow> (\<And>r. P (Ran (GitRevParse p) r)) \<Longrightarrow> (\<And>r b. P (Ran (GitPull p b) r))
   \<Longrightarrow> (\<And>s. P (Said s)) \<Longrightarrow> always P (update_repository p)"
  by (simp add: update_repository_def split: outcome.splits piped.splits)

lemma always_clone_repository:
  "(\<And>r u. P (Ran (GitClone u p) r)) \<Longrightarrow> (\<And>s. P (Said s)) \<Longrightarrow> always P (clone_repository self n p)"
  by (simp add: clone_repository_def split: outcome.splits piped.splits)

lemma always_commit_changes:
  "(\<And>r. P (Ran (GitAdd p) r)) \<Longrightarrow> (\<And>r. P (Ran (GitCommit p m) r)) \<Longrightarrow> (\<And>s. P (Said s))
   \<Longrightarrow> always P (commit_changes p m)"
  by (simp add: commit_changes_def split: outcome.splits piped.splits)

lemma always_local_copy:
  assumes "\<And>b. P (Asked p b)" "\<And>s. P (Said s)" "\<And>r. P (Ran (GitRemoteGetUrl p) r)"
    "\<And>r. P (Ran (GitCheckout p t) r)" "\<And>r. P (Ran (GitCheckoutNew p t) r)"
    "\<And>r. P (Ran (GitFetch p) r)" "\<And>r. P (Ran (GitRevParse p) r)" "\<And>r b. P (Ran (GitPull p b) r)"
    "\<And>r u. P (Ran (GitClone u p) r)"
  shows "always P (local_copy self n p t)"
  unfolding local_copy_def
  by (auto intro!: always_bnd always_check_remote always_checkout_branch always_update_repository
        always_clone_repository simp: assms)

lemma always_add_remote:
  "(\<And>r. P (Ran (GitRemoteAdd p a u) r)) \<Longrightarrow> (\<And>s. P (Said s)) \<Longrightarrow> always P (add_remote p a u)"
  by (simp add: add_remote_def split: outcome.splits)

lemma always_update_remote:
  "(\<And>r. P (Ran (GitRemoteSetUrl p a u) r)) \<Longrightarrow> (\<And>s. P (Said s)) \<Longrightarrow> always P (update_remote p a u)"
  by (simp add: update_remote_def split: outcome.splits)

lemma always_delete_remote:
  "(\<And>r. P (Ran (GitRemoteRemove p a) r)) \<Longrightarrow> (\<And>s. P (Said s)) \<Longrightarrow> always P (delete_remote p a)"
  by (simp add: delete_remote_def split: outcome.splits)

lemma always_manage_remote:
  assumes "\<And>s. P (Said s)" "\<And>r a u. P (Ran (GitRemoteAdd p a u) r)"
    "\<And>r a u. P (Ran (GitRemoteSetUrl p a u) r)" "\<And>r a. P (Ran (GitRemoteRemove p a) r)"
  shows "always P (manage_remote self n p)"
  unfolding manage_remote_def Let_def
  by (auto intro!: always_bnd always_add_remote always_update_remote always_delete_remote simp: assms)

lemma always_commit_step:
  assumes "\<And>s. P (Said s)" "\<And>r. P (Ran (GitAdd p) r)" "\<And>r m. P (Ran (GitCommit p m) r)"
  shows "always P (commit_step self n p)"
  unfolding commit_step_def
  by (auto intro!: always_bnd always_commit_changes simp: assms)

lemma process_repository_named:
  "repo_name_of repo = Inr n \<Longrightarrow>
   process_repository self cwd repo =
     Print (nl @ ''Processing repository: '' @ n)
       (bnd (get_current_branch cwd) (\<lambda>target_branch.
        bnd (local_copy self n (Div (base_dir self) n) target_branch) (\<lambda>_.
        bnd (manage_remote self n (Div (base_dir self) n)) (\<lambda>_.
        bnd (commit_step self n (Div (base_dir self) n)) (\<lambda>_.
        Return (Inr ()))))))"
  by (simp add: process_repository_def Let_def)

lemma excluded_steps:
  "n \<in> set (excluded_repos self) \<Longrightarrow> manage_remote self n p = Return ()"
  "n \<in> set (excluded_repos self) \<Longrightarrow> commit_step self n p = Return ()"
  by (simp_all add: manage_remote_def commit_step_def)

lemma excluded_always:
  assumes "repo_name_of repo = Inr n" "n \<in> set (excluded_repos self)"
  shows "always (\<lambda>e. \<not> is_remote_change e \<and> \<not> is_commit e) (process_repository self cwd repo)"
  unfolding process_repository_named[OF assms(1)] excluded_steps[OF assms(2)]
  by (auto intro!: always_bnd always_get_current_branch always_local_copy
        simp: is_remote_change_def is_commit_def)

section \<open>Excluded repositories\<close>

text \<open>
  C2. A repository whose name is in \<open>excluded_repos\<close> gets no
  \<open>git remote add\<close>, \<open>set-url\<close> or \<open>remove\<close> and no \<open>git add\<close> or
  \<open>git commit\<close>, whatever remote operation and commit message the run was given and
  whatever the world answers: both optional steps test \<open>repo_name not in
  self.excluded_repos\<close> first.
\<close>

theorem excluded_untouched:
  assumes "repo_name_of repo = Inr n" and "n \<in> set (excluded_repos self)"
  shows "\<forall>e \<in> set (trace E (process_repository self cwd repo) w). \<not> is_remote_change e \<and> \<not> is_commit e"
proof
  fix e
  assume "e \<in> set (trace E (process_repository self cwd repo) w)"
  with excluded_always[OF assms, of cwd] show "\<not> is_remote_change e \<and> \<not> is_commit e"
    by (rule always_trace)
qed

theorem excluded_untouched_witness:
  "repo_name_of (descriptor ''gcp-deployment'') = Inr ''gcp-deployment''
   \<and> ''gcp-deployment'' \<in> set (excluded_repos demo)
   \<and> truthy (remote_operation demo) \<and> truthy (commit_message demo)
   \<and> list_all (\<lambda>e. \<not> is_remote_change e \<and> \<not> is_commit e)
         (trace cloned_world (process_repository demo workdir (descriptor ''gcp-deployment'')) 0)"
proof -
  have named: "repo_name_of (descriptor ''gcp-deployment'') = Inr ''gcp-deployment''"
    by (simp add: repo_name_of_def descriptor_def)
  have excluded: "''gcp-deployment'' \<in> set (excluded_repos demo)"
    by (simp add: demo_def)
  have requested: "truthy (remote_operation demo) \<and> truthy (commit_message demo)"
    by (simp add: demo_def)
  from excluded_untouched[OF named excluded, of cloned_world workdir 0] named excluded requested
  show ?thesis by (simp add: list_all_iff)
qed

section \<open>The remote operation\<close>

lemma never_filter:
  assumes "always (\<lambda>e. \<not> Q e) m"
  shows "filter Q (trace E m w) = []"
  by (auto simp: filter_empty_conv dest: always_trace[OF assms])

lemma process_repository_trace:
  assumes "repo_name_of repo = Inr n"
  obtains w2 w3 where
    "trace E (process_repository self cwd repo) w =
       Said (nl @ ''Processing repository: '' @ n) # trace E (get_current_branch cwd) w
       @ trace E (local_copy self n (Div (base_dir self) n) (result E (get_current_branch cwd) w))
           (after E (get_current_branch cwd) w)
       @ trace E (manage_remote self n (Div (base_dir self) n)) w2
       @ trace E (commit_step self n (Div (base_dir self) n)) w3"
  by (simp add: process_repository_named[OF assms] run_simps)

lemma process_repository_returns:
  "repo_name_of repo = Inr n \<Longrightarrow> result E (process_repository self cwd repo) w = Inr ()"
  by (simp add: process_repository_named run_simps)

lemma no_remote_change_outside:
  "always (\<lambda>e. \<not> is_remote_change e) (get_current_branch cwd)"
  "always (\<lambda>e. \<not> is_remote_change e) (local_copy self n p t)"
  "always (\<lambda>e. \<not> is_remote_change e) (commit_step self n p)"
  by (auto intro!: always_get_current_branch always_local_copy always_commit_step
        simp: is_remote_change_def)

lemma remote_changes_of_reconciliation:
  assumes "repo_name_of repo = Inr n"
  obtains w2 where
    "filter is_remote_change (trace E (process_repository self cwd repo) w)
       = filter is_remote_change (trace E (manage_remote self n (Div (base_dir self) n)) w2)"
    "set (trace E (manage_remote self n (Div (base_dir self) n)) w2)
       \<subseteq> set (trace E (process_repository self cwd repo) w)"
proof -
  obtain w2 w3 where tr:
    "trace E (process_repository self cwd repo) w =
       Said (nl @ ''Processing repository: '' @ n) # trace E (get_current_branch cwd) w
       @ trace E (local_copy self n (Div (base_dir self) n) (result E (get_current_branch cwd) w))
           (after E (get_current_branch cwd) w)
       @ trace E (manage_remote self n (Div (base_dir self) n)) w2
       @ trace E (commit_step self n (Div (base_dir self) n)) w3"
    by (rule process_repository_trace[OF assms])
  have "filter is_remote_change (trace E (process_repository self cwd repo) w)
       = filter is_remote_change (trace E (manage_remote self n (Div (base_dir self) n)) w2)"
    by (simp add: tr never_filter[OF no_remote_change_outside(1)]
          never_filter[OF no_remote_change_outside(2)] never_filter[OF no_remote_change_outside(3)]
          is_remote_change_def)
  moreover have "set (trace E (manage_remote self n (Div (base_dir self) n)) w2)
       \<subseteq> set (trace E (process_repository self cwd repo) w)"
    by (auto simp: tr)
  ultimately show ?thesis by (rule that)
qed

lemma manage_remote_add:
  assumes "n \<notin> set (excluded_repos self)" "remote_operation self = Some ''add''"
  shows "if truthy (remote_name self) \<and> truthy (remote_url self)
         then \<exists>r. filter is_remote_change (trace E (manage_remote self n p) w)
                = [Ran (GitRemoteAdd p (fmt (remote_name self)) (fmt (remote_url self) @ n)) r]
         else filter is_remote_change (trace E (manage_remote self n p) w) = []
              \<and> Said (fail_mark @ '' Remote name and URL are required for adding a remote.'')
                  \<in> set (trace E (manage_remote self n p) w)"
  using assms
  by (cases "remote_url self"; cases "remote_name self")
     (simp_all add: manage_remote_def add_remote_def run_simps is_remote_change_def Let_def
        split: outcome.splits)

lemma manage_remote_update:
  assumes "n \<notin> set (excluded_repos self)" "remote_operation self = Some ''update''"
  shows "if truthy (remote_name self) \<and> truthy (remote_url self)
         then \<exists>r. filter is_remote_change (trace E (manage_remote self n p) w)
                = [Ran (GitRemoteSetUrl p (fmt (remote_name self)) (fmt (remote_url self) @ n)) r]
         else filter is_remote_change (trace E (manage_remote self n p) w) = []
              \<and> Said (fail_mark @ '' Remote name and URL are required for updating a remote.'')
                  \<in> set (trace E (manage_remote self n p) w)"
  using assms
  by (cases "remote_url self"; cases "remote_name self")
     (simp_all add: manage_remote_def update_remote_def run_simps is_remote_change_def Let_def
        split: outcome.splits)

lemma manage_remote_delete:
  assumes "n \<notin> set (excluded_repos self)" "remote_operation self = Some ''delete''"
  shows "if truthy (remote_name self)
         then \<exists>r. filter is_remote_change (trace E (manage_remote self n p) w)
                = [Ran (GitRemoteRemove p (fmt (remote_name self))) r]
         else filter is_remote_change (trace E (manage_remote self n p) w) = []
              \<and> Said (fail_mark @ '' Remote name is required for deleting a remote.'')
                  \<in> set (trace E (manage_remote self n p) w)"
  using assms
  by (cases "remote_name self")
     (simp_all add: manage_remote_def delete_remote_def run_simps is_remote_change_def Let_def
        split: outcome.splits)

text \<open>
  C5. For a repository that is not excluded: \<open>add\<close> and \<open>update\<close> run their one git
  command exactly when both the remote name and the remote URL are given (not \<open>None\<close> and
  not empty), \<open>delete\<close> exactly when the remote name is given; when a required value is
  missing no remote command is run at all, the line saying what is required is printed, and
  in every case the reconciliation returns without an exception.
\<close>

theorem remote_operation_validated:
  fixes E :: "'w env" and self cwd repo w n tr p
  defines "tr \<equiv> trace E (process_repository self cwd repo) w"
    and "p \<equiv> Div (base_dir self) n"
  assumes named: "repo_name_of repo = Inr n" and included: "n \<notin> set (excluded_repos self)"
  shows "(remote_operation self = Some ''add'' \<longrightarrow>
            (if truthy (remote_name self) \<and> truthy (remote_url self)
             then \<exists>r. filter is_remote_change tr
                    = [Ran (GitRemoteAdd p (fmt (remote_name self)) (fmt (remote_url self) @ n)) r]
             else filter is_remote_change tr = []
                  \<and> Said (fail_mark @ '' Remote name and URL are required for adding a remote.'') \<in> set tr))
       \<and> (remote_operation self = Some ''update'' \<longrightarrow>
            (if truthy (remote_name self) \<and> truthy (remote_url self)
             then \<exists>r. filter is_remote_change tr
                    = [Ran (GitRemoteSetUrl p (fmt (remote_name self)) (fmt (remote_url self) @ n)) r]
             else filter is_remote_change tr = []
                  \<and> Said (fail_mark @ '' Remote name and URL are required for updating a remote.'') \<in> set tr))
       \<and> (remote_operation self = Some ''delete'' \<longrightarrow>
            (if truthy (remote_name self)
             then \<exists>r. filter is_remote_change tr = [Ran (GitRemoteRemove p (fmt (remote_name self))) r]
             else filter is_remote_change tr = []
                  \<and> Said (fail_mark @ '' Remote name is required for deleting a remote.'') \<in> set tr))
       \<and> result E (process_repository self cwd repo) w = Inr ()"
proof -
  obtain w2 where
    same: "filter is_remote_change tr = filter is_remote_change (trace E (manage_remote self n p) w2)"
    and part: "set (trace E (manage_remote self n p) w2) \<subseteq> set tr"
    unfolding tr_def p_def by (rule remote_changes_of_reconciliation[OF named])
  have add: ?thesis if "remote_operation self = Some ''add''"
    using manage_remote_add[OF included that, of E p w2] that part process_repository_returns[OF named]
    by (auto simp: same split: if_splits)
  have update: ?thesis if "remote_operation self = Some ''update''"
    using manage_remote_update[OF included that, of E p w2] that part process_repository_returns[OF named]
    by (auto simp: same split: if_splits)
  have delete: ?thesis if "remote_operation self = Some ''delete''"
    using manage_remote_delete[OF included that, of E p w2] that part process_repository_returns[OF named]
    by (auto simp: same split: if_splits)
  have other: ?thesis
    if "remote_operation self \<noteq> Some ''add''" "remote_operation self \<noteq> Some ''update''"
      "remote_operation self \<noteq> Some ''delete''"
    using that process_repository_returns[OF named] by simp
  from add update delete other show ?thesis by blast
qed

theorem remote_operation_validated_witness:
  "repo_name_of (descriptor ''terraform-gcp-compute'') = Inr ''terraform-gcp-compute''
   \<and> ''terraform-gcp-compute'' \<notin> set (excluded_repos no_url)
   \<and> remote_operation no_url = Some ''add''
   \<and> truthy (remote_name no_url) \<and> \<not> truthy (remote_url no_url)
   \<and> filter is_remote_change
        (trace cloned_world (process_repository no_url workdir (descriptor ''terraform-gcp-compute'')) 0) = []
   \<and> Said (fail_mark @ '' Remote name and URL are required for adding a remote.'')
       \<in> set (trace cloned_world (process_repository no_url workdir (descriptor ''terraform-gcp-compute'')) 0)
   \<and> result cloned_world (process_repository no_url workdir (descriptor ''terraform-gcp-compute'')) 0 = Inr ()"
proof -
  have named: "repo_name_of (descriptor ''terraform-gcp-compute'') = Inr ''terraform-gcp-compute''"
    by (simp add: repo_name_of_def descriptor_def)
  have included: "''terraform-gcp-compute'' \<notin> set (excluded_repos no_url)"
    by (simp add: no_url_def demo_def)
  have request: "remote_operation no_url = Some ''add'' \<and> truthy (remote_name no_url)
      \<and> \<not> truthy (remote_url no_url)"
    by (simp add: no_url_def demo_def)
  from remote_operation_validated[OF named included, of cloned_world workdir 0] named included request
  show ?thesis by simp
qed

section \<open>The URL of a remote\<close>

lemma manage_remote_url:
  "always (\<lambda>e. \<forall>u. remote_url_used e = Some u \<longrightarrow> (\<exists>base. remote_url self = Some base \<and> u = base @ n))
     (manage_remote self n p)"
proof (cases "remote_url self")
  case None
  then show ?thesis
    unfolding manage_remote_def Let_def
    by (auto intro!: always_bnd always_add_remote always_update_remote always_delete_remote
          simp: remote_url_used_def)
next
  case (Some base)
  then show ?thesis
    unfolding manage_remote_def Let_def
    by (auto intro!: always_bnd always_add_remote always_update_remote always_delete_remote
          simp: remote_url_used_def)
qed

lemma process_repository_url:
  assumes "repo_name_of repo = Inr n"
  shows "always (\<lambda>e. \<forall>u. remote_url_used e = Some u \<longrightarrow> (\<exists>base. remote_url self = Some base \<and> u = base @ n))
           (process_repository self cwd repo)"
proof -
  define P where
    "P = (\<lambda>e. \<forall>u. remote_url_used e = Some u \<longrightarrow> (\<exists>base. remote_url self = Some base \<and> u = base @ n))"
  have other: "\<And>e. remote_url_used e = None \<Longrightarrow> P e"
    by (simp add: P_def)
  have remote: "\<And>p. always P (manage_remote self n p)"
    unfolding P_def by (rule manage_remote_url)
  have "always P (process_repository self cwd repo)"
    unfolding process_repository_named[OF assms]
    by (auto intro!: always_bnd always_get_current_branch always_local_copy always_commit_step
          remote other simp: remote_url_used_def)
  then show ?thesis by (simp add: P_def)
qed

text \<open>
  C6. Whenever a reconciliation runs \<open>git remote add\<close> or \<open>git remote set-url\<close>,
  the URL it passes is the configured \<open>remote_url\<close> followed at once by the repository
  name: nothing is put between them and neither is changed. And for a repository that is not
  excluded, with a remote name and a remote URL given, \<open>add\<close> does run
  \<open>git remote add\<close> and \<open>update\<close> does run \<open>git remote set-url\<close> with that
  name and that URL.
\<close>

theorem remote_url_is_concatenation:
  fixes E :: "'w env" and self cwd repo w n tr p
  defines "tr \<equiv> trace E (process_repository self cwd repo) w"
    and "p \<equiv> Div (base_dir self) n"
  assumes named: "repo_name_of repo = Inr n"
  shows "(\<forall>e \<in> set tr. \<forall>u. remote_url_used e = Some u \<longrightarrow>
            (\<exists>base. remote_url self = Some base \<and> u = base @ n))
       \<and> (n \<notin> set (excluded_repos self) \<and> truthy (remote_name self) \<and> truthy (remote_url self) \<longrightarrow>
            (remote_operation self = Some ''add'' \<longrightarrow>
               (\<exists>r. Ran (GitRemoteAdd p (fmt (remote_name self)) (fmt (remote_url self) @ n)) r \<in> set tr))
            \<and> (remote_operation self = Some ''update'' \<longrightarrow>
               (\<exists>r. Ran (GitRemoteSetUrl p (fmt (remote_name self)) (fmt (remote_url self) @ n)) r
                  \<in> set tr)))"
proof (intro conjI ballI allI impI)
  fix e u
  assume "e \<in> set tr" and used: "remote_url_used e = Some u"
  then have "e \<in> set (trace E (process_repository self cwd repo) w)"
    by (simp add: tr_def)
  from always_trace[OF process_repository_url[OF named] this] used
  show "\<exists>base. remote_url self = Some base \<and> u = base @ n" by blast
next
  assume given: "n \<notin> set (excluded_repos self) \<and> truthy (remote_name self) \<and> truthy (remote_url self)"
    and add: "remote_operation self = Some ''add''"
  obtain w2 where same:
    "filter is_remote_change tr = filter is_remote_change (trace E (manage_remote self n p) w2)"
    unfolding tr_def p_def by (rule remote_changes_of_reconciliation[OF named])
  from manage_remote_add[of n self E p w2] given add same
  obtain r where "filter is_remote_change tr
      = [Ran (GitRemoteAdd p (fmt (remote_name self)) (fmt (remote_url self) @ n)) r]"
    by auto
  then have "Ran (GitRemoteAdd p (fmt (remote_name self)) (fmt (remote_url self) @ n)) r
      \<in> set (filter is_remote_change tr)"
    by simp
  then show "\<exists>r. Ran (GitRemoteAdd p (fmt (remote_name self)) (fmt (remote_url self) @ n)) r \<in> set tr"
    by auto
next
  assume given: "n \<notin> set (excluded_repos self) \<and> truthy (remote_name self) \<and> truthy (remote_url self)"
    and update: "remote_operation self = Some ''update''"
  obtain w2 where same:
    "filter is_remote_change tr = filter is_remote_change (trace E (manage_remote self n p) w2)"
    unfolding tr_def p_def by (rule remote_changes_of_reconciliation[OF named])
  from manage_remote_update[of n self E p w2] given update same
  obtain r where "filter is_remote_change tr
      = [Ran (GitRemoteSetUrl p (fmt (remote_name self)) (fmt (remote_url self) @ n)) r]"
    by auto
  then have "Ran (GitRemoteSetUrl p (fmt (remote_name self)) (fmt (remote_url self) @ n)) r
      \<in> set (filter is_remote_change tr)"
    by simp
  then show "\<exists>r. Ran (GitRemoteSetUrl p (fmt (remote_name self)) (fmt (remote_url self) @ n)) r \<in> set tr"
    by auto
qed

theorem remote_url_is_concatenation_witness:
  "repo_name_of (descriptor ''terraform-gcp-compute'') = Inr ''terraform-gcp-compute''
   \<and> ''terraform-gcp-compute'' \<notin> set (excluded_repos updating)
   \<and> truthy (remote_name updating) \<and> truthy (remote_url updating)
   \<and> remote_operation updating = Some ''update''
   \<and> (\<exists>r. Ran (GitRemoteSetUrl (Div (Resolved ''/home/dev'') ''terraform-gcp-compute'') ''mirror''
               ''git@mirror.example.com:ops/terraform-gcp-compute'') r
         \<in> set (trace cloned_world (process_repository updating workdir (descriptor ''terraform-gcp-compute'')) 0))
   \<and> remote_operation demo = Some ''add''
   \<and> (\<exists>r. Ran (GitRemoteAdd (Div (Resolved ''/home/dev'') ''terraform-gcp-compute'') ''mirror''
               ''git@mirror.example.com:ops/terraform-gcp-compute'') r
         \<in> set (trace cloned_world (process_repository demo workdir (descriptor ''terraform-gcp-compute'')) 0))
   \<and> Ran (GitRemoteSetUrl (Div (Resolved ''/home/dev'') ''terraform-gcp-compute'') ''mirror''
             ''git@mirror.example.com:ops/terraform-gcp-compute'') quiet
       \<in> set (trace cloned_world (process_repository updating workdir (descriptor ''terraform-gcp-compute'')) 0)
   \<and> (\<exists>base. remote_url updating = Some base
         \<and> ''git@mirror.example.com:ops/terraform-gcp-compute'' = base @ ''terraform-gcp-compute'')"
proof -
  have named: "repo_name_of (descriptor ''terraform-gcp-compute'') = Inr ''terraform-gcp-compute''"
    by (simp add: repo_name_of_def descriptor_def)
  have given: "''terraform-gcp-compute'' \<notin> set (excluded_repos updating)
      \<and> truthy (remote_name updating) \<and> truthy (remote_url updating)
      \<and> remote_operation updating = Some ''update''"
    by (simp add: updating_def demo_def)
  have given': "''terraform-gcp-compute'' \<notin> set (excluded_repos demo)
      \<and> truthy (remote_name demo) \<and> truthy (remote_url demo)
      \<and> remote_operation demo = Some ''add''"
    by (simp add: demo_def)
  have fields: "base_dir updating = Resolved ''/home/dev'' \<and> fmt (remote_name updating) = ''mirror''
      \<and> fmt (remote_url updating) @ ''terraform-gcp-compute''
          = ''git@mirror.example.com:ops/terraform-gcp-compute''
      \<and> base_dir demo = Resolved ''/home/dev'' \<and> fmt (remote_name demo) = ''mirror''
      \<and> fmt (remote_url demo) @ ''terraform-gcp-compute''
          = ''git@mirror.example.com:ops/terraform-gcp-compute''"
    by (simp add: updating_def demo_def)
  have occurs: "Ran (GitRemoteSetUrl (Div (Resolved ''/home/dev'') ''terraform-gcp-compute'') ''mirror''
             ''git@mirror.example.com:ops/terraform-gcp-compute'') quiet
       \<in> set (trace cloned_world (process_repository updating workdir (descriptor ''terraform-gcp-compute'')) 0)"
    by (simp add: updating_def concrete_simps)
  have used: "remote_url_used (Ran (GitRemoteSetUrl (Div (Resolved ''/home/dev'') ''terraform-gcp-compute'')
             ''mirror'' ''git@mirror.example.com:ops/terraform-gcp-compute'') quiet)
       = Some ''git@mirror.example.com:ops/terraform-gcp-compute''"
    by (simp add: remote_url_used_def)
  note updated = remote_url_is_concatenation[OF named, of cloned_world updating workdir 0]
  note added = remote_url_is_concatenation[OF named, of cloned_world demo workdir 0]
  from updated given fields have set_url:
    "\<exists>r. Ran (GitRemoteSetUrl (Div (Resolved ''/home/dev'') ''terraform-gcp-compute'') ''mirror''
               ''git@mirror.example.com:ops/terraform-gcp-compute'') r
         \<in> set (trace cloned_world (process_repository updating workdir (descriptor ''terraform-gcp-compute'')) 0)"
    by simp
  from added given' fields have add:
    "\<exists>r. Ran (GitRemoteAdd (Div (Resolved ''/home/dev'') ''terraform-gcp-compute'') ''mirror''
               ''git@mirror.example.com:ops/terraform-gcp-compute'') r
         \<in> set (trace cloned_world (process_repository demo workdir (descriptor ''terraform-gcp-compute'')) 0)"
    by simp
  from updated occurs used have base:
    "\<exists>base. remote_url updating = Some base
         \<and> ''git@mirror.example.com:ops/terraform-gcp-compute'' = base @ ''terraform-gcp-compute''"
    by blast
  from named given given' set_url add occurs base show ?thesis by blast
qed

section \<open>Checkout and update of an existing working copy\<close>











section \<open>The target branch\<close>

lemma get_current_branch_result:
  "result E (get_current_branch p) w =
     (case fst (run_cmd E w (GitRevParse p)) of
        Raised \<Rightarrow> ''main''
      | Exited rc out err \<Rightarrow> (case out of NotUtf8 \<Rightarrow> ''main'' | Utf8 t \<Rightarrow> py_strip t))"
  by (simp add: get_current_branch_def run_simps split: outcome.splits piped.splits)

lemma no_target_outside:
  "always (\<lambda>e. checkout_target e = None) (get_current_branch cwd)"
  "always (\<lambda>e. checkout_target e = None) (manage_remote self n p)"
  "always (\<lambda>e. checkout_target e = None) (commit_step self n p)"
  "always (\<lambda>e. checkout_target e = None) verify_git_ssh"
  by (auto intro!: always_get_current_branch always_manage_remote always_commit_step
        simp: checkout_target_def verify_git_ssh_def split: outcome.splits piped.splits)

lemma local_copy_target:
  "always (\<lambda>e. \<forall>b. checkout_target e = Some b \<longrightarrow> b = t) (local_copy self n p t)"
  by (rule always_local_copy) (simp_all add: checkout_target_def)

lemma reconciliation_target:
  assumes "e \<in> set (trace E (process_repository self cwd repo) w)" and "checkout_target e = Some b"
  shows "b = result E (get_current_branch cwd) w"
proof (cases "repo_name_of repo")
  case (Inl x)
  with assms(1) show ?thesis by (simp add: process_repository_def run_simps)
next
  case (Inr n)
  obtain w2 w3 where whole:
    "trace E (process_repository self cwd repo) w =
       Said (nl @ ''Processing repository: '' @ n) # trace E (get_current_branch cwd) w
       @ trace E (local_copy self n (Div (base_dir self) n) (result E (get_current_branch cwd) w))
           (after E (get_current_branch cwd) w)
       @ trace E (manage_remote self n (Div (base_dir self) n)) w2
       @ trace E (commit_step self n (Div (base_dir self) n)) w3"
    by (rule process_repository_trace[OF Inr])
  from assms(1) consider
      "e = Said (nl @ ''Processing repository: '' @ n)"
    | "e \<in> set (trace E (get_current_branch cwd) w)"
    | "e \<in> set (trace E (local_copy self n (Div (base_dir self) n) (result E (get_current_branch cwd) w))
           (after E (get_current_branch cwd) w))"
    | "e \<in> set (trace E (manage_remote self n (Div (base_dir self) n)) w2)"
    | "e \<in> set (trace E (commit_step self n (Div (base_dir self) n)) w3)"
    unfolding whole by auto
  then show ?thesis
  proof cases
    case 1
    with assms(2) show ?thesis by (simp add: checkout_target_def)
  next
    case 2
    from always_trace[OF no_target_outside(1) 2] assms(2) show ?thesis by simp
  next
    case 3
    from always_trace[OF local_copy_target 3] assms(2) show ?thesis by simp
  next
    case 4
    from always_trace[OF no_target_outside(2) 4] assms(2) show ?thesis by simp
  next
    case 5
    from always_trace[OF no_target_outside(3) 5] assms(2) show ?thesis by simp
  qed
qed

lemma gather_target:
  assumes steady: "\<And>w'. result E (get_current_branch cwd) w' = B"
  shows "e \<in> set (trace E (gather (map (process_repository self cwd) repos)) w)
         \<Longrightarrow> checkout_target e = Some b \<Longrightarrow> b = B"
proof (induction repos arbitrary: w)
  case Nil
  then show ?case by (simp add: run_simps)
next
  case (Cons repo repos)
  from Cons.prems(1) consider
      "e \<in> set (trace E (process_repository self cwd repo) w)"
    | w' where "e \<in> set (trace E (gather (map (process_repository self cwd) repos)) w')"
    by (auto simp: run_simps split: sum.splits)
  then show ?case
  proof cases
    case 1
    from reconciliation_target[OF 1 Cons.prems(2)] steady show ?thesis by simp
  next
    case 2
    from Cons.IH[OF 2 Cons.prems(2)] show ?thesis .
  qed
qed

lemma run_target:
  assumes steady: "\<And>w'. result E (get_current_branch cwd) w' = B"
    and "e \<in> set (trace E (run self cwd) w)" and "checkout_target e = Some b"
  shows "b = B"
proof -
  from assms(2) consider
      "checkout_target e = None"
    | "e \<in> set (trace E verify_git_ssh (made E w (base_dir self)))"
    | repos w' where "e \<in> set (trace E (gather (map (process_repository self cwd) repos)) w')"
    by (auto simp: run_def run_simps checkout_target_def split: if_splits sum.splits)
  then show ?thesis
  proof cases
    case 1
    with assms(3) show ?thesis by simp
  next
    case 2
    from always_trace[OF no_target_outside(4) 2] assms(3) show ?thesis by simp
  next
    case 3
    from gather_target[OF steady 3 assms(3)] show ?thesis .
  qed
qed

lemma one_value: "set xs \<subseteq> {B} \<Longrightarrow> length (remdups xs) \<le> 1"
proof -
  assume "set xs \<subseteq> {B}"
  then have "card (set xs) \<le> card {B}" by (intro card_mono) auto
  then show ?thesis by (simp add: length_remdups_card_conv)
qed

lemma in_targets: "b \<in> set (targets tr) \<Longrightarrow> \<exists>e \<in> set tr. checkout_target e = Some b"
  by (induction tr) (auto simp: targets_def map_filter_simps split: option.splits)

lemma greeted: "py_in ''successfully authenticated''
    (py_lower ''Hi dev! You have successfully authenticated, but GitHub does not provide shell access.'')"
  by code_simp

text \<open>
  C7, as stated, fails in its last part. In one run over two repositories the first
  reconciliation finds the tool's working copy on \<open>feature\<close>; for the second,
  \<open>git rev-parse\<close> cannot be started, \<open>get_current_branch\<close> falls back to
  \<open>main\<close>, and the two repositories are checked out to different branches.
\<close>

theorem targets_differ:
  "targets (trace flaky_world (run pair workdir) 0) = [''feature'', ''main'']
   \<and> \<not> same_target (trace flaky_world (run pair workdir) 0)"
proof -
  have "targets (trace flaky_world (run pair workdir) 0) = [''feature'', ''main'']"
    by (simp add: run_def verify_git_ssh_def py_iter_def pair_def flaky_world_def greeted
          concrete_simps targets_def map_filter_simps checkout_target_def)
  then show ?thesis by (simp add: same_target_def)
qed

text \<open>
  C7, amended. In every reconciliation the branch of each checkout command is what
  \<open>get_current_branch\<close> returned for the tool's own working directory at the start of
  that reconciliation (the stripped output of \<open>git rev-parse --abbrev-ref HEAD\<close> there,
  or \<open>main\<close> when the query raises or cannot be decoded); nothing of the descriptor
  enters it. If that query is answered alike every time it is asked during a run, all
  checkouts of the run name the same branch.
\<close>

theorem target_branch_from_workspace:
  "(\<forall>e \<in> set (trace E (process_repository self cwd repo) w).
      \<forall>b. checkout_target e = Some b \<longrightarrow> b = result E (get_current_branch cwd) w)
   \<and> ((\<forall>w'. fst (run_cmd E w' (GitRevParse cwd)) = answer) \<longrightarrow> same_target (trace E (run self cwd) w))"
proof (intro conjI ballI allI impI)
  fix e b
  assume "e \<in> set (trace E (process_repository self cwd repo) w)" "checkout_target e = Some b"
  then show "b = result E (get_current_branch cwd) w" by (rule reconciliation_target)
next
  assume same: "\<forall>w'. fst (run_cmd E w' (GitRevParse cwd)) = answer"
  define B where "B = (case answer of Raised \<Rightarrow> ''main''
      | Exited rc out err \<Rightarrow> (case out of NotUtf8 \<Rightarrow> ''main'' | Utf8 t \<Rightarrow> py_strip t))"
  have steady: "\<And>w'. result E (get_current_branch cwd) w' = B"
    by (simp add: get_current_branch_result same B_def)
  have "set (targets (trace E (run self cwd) w)) \<subseteq> {B}"
    using run_target[OF steady] by (auto dest!: in_targets)
  then show "same_target (trace E (run self cwd) w)"
    unfolding same_target_def by (rule one_value)
qed

theorem target_branch_from_workspace_witness:
  "Ran (GitCheckout (Div (Resolved ''/home/dev'') ''gcp-deployment'') ''feature'') quiet
     \<in> set (trace fresh_world (process_repository pair workdir (descriptor ''gcp-deployment'')) 0)
   \<and> result fresh_world (get_current_branch workdir) 0 = ''feature''
   \<and> (\<forall>w'. fst (run_cmd fresh_world w' (GitRevParse workdir)) = Exited 0 (Utf8 (''feature'' @ nl)) (Utf8 []))
   \<and> targets (trace fresh_world (run pair workdir) 0) = [''feature'', ''feature'']
   \<and> same_target (trace fresh_world (run pair workdir) 0)"
proof -
  have occurs: "Ran (GitCheckout (Div (Resolved ''/home/dev'') ''gcp-deployment'') ''feature'') quiet
     \<in> set (trace fresh_world (process_repository pair workdir (descriptor ''gcp-deployment'')) 0)"
    by (simp add: pair_def concrete_simps)
  have target: "checkout_target (Ran (GitCheckout (Div (Resolved ''/home/dev'') ''gcp-deployment'') ''feature'') quiet)
      = Some ''feature''"
    by (simp add: checkout_target_def)
  have steady: "\<forall>w'. fst (run_cmd fresh_world w' (GitRevParse workdir))
      = Exited 0 (Utf8 (''feature'' @ nl)) (Utf8 [])"
    by (simp add: fresh_world_def scripted_simps answers_def)
  have list: "targets (trace fresh_world (run pair workdir) 0) = [''feature'', ''feature'']"
    by (simp add: run_def verify_git_ssh_def py_iter_def pair_def greeted
          concrete_simps targets_def map_filter_simps checkout_target_def)
  from target_branch_from_workspace[of fresh_world pair workdir "descriptor ''gcp-deployment''" 0
      "Exited 0 (Utf8 (''feature'' @ nl)) (Utf8 [])"] occurs target steady list
  show ?thesis by auto
qed

section \<open>The exit status of a run\<close>

lemma gather_returns:
  "list_all named repos \<Longrightarrow> result E (gather (map (process_repository self cwd) repos)) w = Inr ()"
proof (induction repos arbitrary: w)
  case Nil
  then show ?case by (simp add: run_simps)
next
  case (Cons repo repos)
  from Cons.prems obtain n where "repo_name_of repo = Inr n"
    by (auto simp: named_def split: sum.splits)
  then have "result E (process_repository self cwd repo) w = Inr ()"
    by (rule process_repository_returns)
  with Cons show ?case by (simp add: run_simps)
qed

lemma verify_git_ssh_no_git: "always (\<lambda>e. \<not> is_git e) verify_git_ssh"
  by (simp add: verify_git_ssh_def is_git_def split: outcome.splits piped.splits)

lemma refused: "\<not> py_in ''successfully authenticated''
    (py_lower ''git@github.com: Permission denied (publickey).'')"
  by code_simp

text \<open>
  C3. When \<open>verify_git_ssh\<close> returns \<open>False\<close>, \<open>run\<close> ends in
  \<open>sys.exit(1)\<close>: the exit status is 1 and the history is the verification and two
  lines of advice, with no git command and so no reconciliation. When it returns
  \<open>True\<close> and the catalogue is a list of dictionaries that each have a string under
  \<open>name\<close>, the exit status is 0 whatever the git commands of the reconciliations do.
\<close>

theorem run_exit_status:
  fixes E :: "'w env" and self cwd w verified
  defines "verified \<equiv> result E verify_git_ssh (made E w (base_dir self))"
  shows "(\<not> verified \<longrightarrow>
            exit_status (result E (run self cwd) w) = 1
            \<and> trace E (run self cwd) w =
                Said (''Initializing project: '' @ project_name self) # Made (base_dir self)
                # Said (nl @ ''Verifying Git SSH access to GitHub...'')
                # trace E verify_git_ssh (made E w (base_dir self))
                @ [Said (fail_mark @ '' Failed to verify Git SSH access to GitHub''),
                   Said ''Please check your SSH configuration'']
            \<and> \<not> list_ex is_git (trace E (run self cwd) w))
       \<and> (verified \<and> well_formed (repositories self) \<longrightarrow>
            exit_status (result E (run self cwd) w) = 0)"
proof (intro conjI impI)
  assume no: "\<not> verified"
  then show "exit_status (result E (run self cwd) w) = 1"
    by (simp add: run_def run_simps verified_def)
  from no show tr: "trace E (run self cwd) w =
                Said (''Initializing project: '' @ project_name self) # Made (base_dir self)
                # Said (nl @ ''Verifying Git SSH access to GitHub...'')
                # trace E verify_git_ssh (made E w (base_dir self))
                @ [Said (fail_mark @ '' Failed to verify Git SSH access to GitHub''),
                   Said ''Please check your SSH configuration'']"
    by (simp add: run_def run_simps verified_def)
  show "\<not> list_ex is_git (trace E (run self cwd) w)"
    unfolding tr by (auto simp: list_ex_iff is_git_def dest: always_trace[OF verify_git_ssh_no_git])
next
  assume yes: "verified \<and> well_formed (repositories self)"
  then obtain repos where repos: "repositories self = PList repos" "list_all named repos"
    by (auto simp: well_formed_def split: pyval.splits)
  from yes show "exit_status (result E (run self cwd) w) = 0"
    by (simp add: run_def run_simps verified_def repos py_iter_def gather_returns[OF repos(2)])
qed

theorem run_exit_status_witness:
  "\<not> result locked_out verify_git_ssh (made locked_out 0 (base_dir demo))
   \<and> exit_status (result locked_out (run demo workdir) 0) = 1
   \<and> \<not> list_ex is_git (trace locked_out (run demo workdir) 0)
   \<and> result failing_world verify_git_ssh (made failing_world 0 (base_dir demo))
   \<and> well_formed (repositories demo)
   \<and> list_ex raised (trace failing_world (run demo workdir) 0)
   \<and> exit_status (result failing_world (run demo workdir) 0) = 0"
proof -
  have no: "\<not> result locked_out verify_git_ssh (made locked_out 0 (base_dir demo))"
    by (simp add: locked_out_def verify_git_ssh_def run_simps scripted_simps refused)
  have yes: "result failing_world verify_git_ssh (made failing_world 0 (base_dir demo))"
    by (simp add: failing_world_def verify_git_ssh_def run_simps scripted_simps answers_def greeted)
  have wf: "well_formed (repositories demo)"
    by (simp add: well_formed_def demo_def config_repositories_def catalogue_def named_def
          repo_name_of_def descriptor_def)
  have fails: "list_ex raised (trace failing_world (run demo workdir) 0)"
    by (simp add: run_def verify_git_ssh_def failing_world_def greeted py_iter_def
          config_repositories_def catalogue_def raised_def concrete_simps)
  from run_exit_status[of locked_out 0 demo workdir] run_exit_status[of failing_world 0 demo workdir]
    no yes wf fails
  show ?thesis by blast
qed

section \<open>The constructor and the launcher\<close>

lemma json_loads_not_text:
  "(\<forall>t. v \<noteq> PStr t) \<Longrightarrow> (\<forall>b. v \<noteq> PBytes b) \<Longrightarrow> json_loads parse v = Inl TypeError"
  by (cases v) (simp_all add: json_loads_def)

text \<open>
  What \<open>main\<close> does, under every world and for every command line: the evaluation of
  the configuration stops at \<open>true\<close> with \<open>NameError\<close>; nothing is printed, no
  initializer is built and nothing is run.
\<close>

lemma main_raises_name_error:
  "exec E (main parse parent cwd args) w = (Inl NameError, w, [])"
  by (simp add: main_def repositories_display_def descriptor_display_def)

text \<open>
  C10, as stated, fails twice. A value that is no \<open>str\<close> is accepted when it is a byte
  string: \<open>json.loads\<close> reads \<open>bytes\<close> as well, so the construction stores the parsed
  catalogue instead of raising. And the launcher does not fail at construction: it ends
  with \<open>NameError\<close> while it evaluates its embedded configuration, before the constructor
  is called.
\<close>

theorem bytes_accepted_and_launcher_stops_earlier:
  "ProjectInitializer tiny_parse (Resolved ''/home/dev'') ''gcp-kubernetes'' ''HappyPathway''
       (PBytes ''[]'') None None None None None
     = Inr \<lparr>project_name = ''gcp-kubernetes'', repo_org = ''HappyPathway'', repositories = PList [],
            base_dir = Resolved ''/home/dev'', commit_message = None, excluded_repos = [],
            remote_operation = None, remote_name = None, remote_url = None\<rparr>
   \<and> result fresh_world
        (main tiny_parse (Resolved ''/home/dev'') workdir
           \<lparr>debug = False, commit = False, message = None, exclude = None,
            cli_remote_operation = None, cli_remote_name = None, cli_remote_url = None\<rparr>) 0
     = Inl NameError"
  by (simp add: ProjectInitializer_def json_loads_def tiny_parse_def result_def
        main_raises_name_error)

text \<open>
  C10, amended. \<open>__init__\<close> passes its \<open>repositories\<close> argument to
  \<open>json.loads\<close>: an argument that is neither a \<open>str\<close> nor a byte string makes the
  construction raise \<open>TypeError\<close> and nothing is stored, and that holds for every
  already-parsed list of descriptors; a JSON text, given as \<open>str\<close> or as bytes, is
  parsed and the parsed value stored as the catalogue.
\<close>

theorem constructor_needs_json_text:
  "((\<forall>t. repos \<noteq> PStr t) \<and> (\<forall>b. repos \<noteq> PBytes b) \<longrightarrow>
      ProjectInitializer parse parent pname org repos cmsg excl rop rname rurl = Inl TypeError)
   \<and> ProjectInitializer parse parent pname org (PList ds) cmsg excl rop rname rurl = Inl TypeError
   \<and> (parse t = Some v \<longrightarrow>
        (\<exists>self. ProjectInitializer parse parent pname org (PStr t) cmsg excl rop rname rurl = Inr self
           \<and> repositories self = v)
        \<and> (\<exists>self. ProjectInitializer parse parent pname org (PBytes t) cmsg excl rop rname rurl = Inr self
           \<and> repositories self = v))"
proof -
  have other: "ProjectInitializer parse parent pname org repos cmsg excl rop rname rurl = Inl TypeError"
    if "(\<forall>t. repos \<noteq> PStr t) \<and> (\<forall>b. repos \<noteq> PBytes b)"
    using that by (simp add: ProjectInitializer_def json_loads_not_text)
  have parsed_list: "ProjectInitializer parse parent pname org (PList ds) cmsg excl rop rname rurl
      = Inl TypeError"
    by (simp add: ProjectInitializer_def json_loads_def)
  have parsed: "(\<exists>self. ProjectInitializer parse parent pname org (PStr t) cmsg excl rop rname rurl = Inr self
           \<and> repositories self = v)
        \<and> (\<exists>self. ProjectInitializer parse parent pname org (PBytes t) cmsg excl rop rname rurl = Inr self
           \<and> repositories self = v)" if "parse t = Some v"
    using that by (simp add: ProjectInitializer_def json_loads_def)
  from other parsed_list parsed show ?thesis by blast
qed

theorem constructor_needs_json_text_witness:
  "(\<forall>t. PInt 7 \<noteq> PStr t) \<and> (\<forall>b. PInt 7 \<noteq> PBytes b)
   \<and> ProjectInitializer tiny_parse (Resolved ''/home/dev'') ''gcp-kubernetes'' ''HappyPathway''
        (PInt 7) None None None None None = Inl TypeError
   \<and> ProjectInitializer tiny_parse (Resolved ''/home/dev'') ''gcp-kubernetes'' ''HappyPathway''
        (PList catalogue) None None None None None = Inl TypeError
   \<and> tiny_parse ''[]'' = Some (PList [])
   \<and> (\<exists>self. ProjectInitializer tiny_parse (Resolved ''/home/dev'') ''gcp-kubernetes'' ''HappyPathway''
                (PStr ''[]'') None None None None None = Inr self
         \<and> repositories self = PList [])
   \<and> (\<exists>self. ProjectInitializer tiny_parse (Resolved ''/home/dev'') ''gcp-kubernetes'' ''HappyPathway''
                (PBytes ''[]'') None None None None None = Inr self
         \<and> repositories self = PList [])"
proof -
  have other: "(\<forall>t. PInt 7 \<noteq> PStr t) \<and> (\<forall>b. PInt 7 \<noteq> PBytes b)"
    by simp
  have parsed: "tiny_parse ''[]'' = Some (PList [])"
    by (simp add: tiny_parse_def)
  from constructor_needs_json_text[of "PInt 7" tiny_parse "Resolved ''/home/dev''"
      "''gcp-kubernetes''" "''HappyPathway''" None None None None None catalogue "''[]''" "PList []"]
    other parsed
  show ?thesis by blast
qed

section \<open>The semaphore\<close>

lemma count_update:
  "i < length xs \<Longrightarrow>
   length (filter P (xs[i := y])) + (if P (xs ! i) then 1 else 0)
     = length (filter P xs) + (if P y then 1 else 0)"
proof (induction xs arbitrary: i)
  case Nil
  then show ?case by simp
next
  case (Cons x xs)
  show ?case
  proof (cases i)
    case 0
    then show ?thesis by simp
  next
    case (Suc j)
    with Cons.prems have "j < length xs" by simp
    from Cons.IH[OF this] Suc show ?thesis by simp
  qed
qed

lemma update_not_waiting:
  "\<not> is_waiting y \<Longrightarrow> \<not> is_waiting (xs ! j) \<Longrightarrow> \<not> is_waiting (xs[i := y] ! j)"
  by (cases "i = j"; cases "i < length xs") (simp_all add: list_update_beyond)

lemma not_waiting: "\<not> is_waiting (Active m)" "\<not> is_waiting (Gone r)"
  by (simp_all add: is_waiting_def)

lemma launch_balanced: "balanced (launch self cwd repos w)"
  by (simp add: balanced_def launch_def active_def idle_while_waiting_def is_active_def
        filter_empty_conv)

lemma idle_update:
  assumes "idle_while_waiting s" and "\<not> is_waiting y"
  shows "list_all (\<lambda>ie. fst ie < length (slots s) \<and> \<not> is_waiting ((slots s)[i := y] ! fst ie))
           (history s)"
  unfolding list_all_iff
proof
  fix ie
  assume "ie \<in> set (history s)"
  with assms(1) have "fst ie < length (slots s)" "\<not> is_waiting (slots s ! fst ie)"
    by (auto simp: idle_while_waiting_def list_all_iff)
  with assms(2) show "fst ie < length (slots s) \<and> \<not> is_waiting ((slots s)[i := y] ! fst ie)"
    by (simp add: update_not_waiting)
qed

lemma acquire_balanced:
  assumes "balanced s" "i < length (slots s)" "slots s ! i = Waiting m" "0 < permits s"
    and "permits s' = permits s - 1" "slots s' = (slots s)[i := Active m]" "history s' = history s"
  shows "balanced s'"
proof -
  from count_update[OF assms(2), of is_active "Active m"] assms(3)
  have "length (filter is_active ((slots s)[i := Active m])) = Suc (active s)"
    by (simp add: active_def is_active_def)
  moreover from assms(1) have "idle_while_waiting s"
    by (simp add: balanced_def)
  note idle_update[OF this not_waiting(1), of i m]
  ultimately show ?thesis
    using assms(1,4,5,6,7) by (simp add: balanced_def active_def idle_while_waiting_def)
qed

lemma advance_balanced:
  assumes "balanced s" "i < length (slots s)" "slots s ! i = Active m"
    and "permits s' = permits s" "slots s' = (slots s)[i := Active m']"
      "history s' = history s @ [(i, ev)]"
  shows "balanced s'"
proof -
  from count_update[OF assms(2), of is_active "Active m'"] assms(3)
  have "length (filter is_active ((slots s)[i := Active m'])) = active s"
    by (simp add: active_def is_active_def)
  moreover from assms(1) have "idle_while_waiting s"
    by (simp add: balanced_def)
  note idle_update[OF this not_waiting(1), of i m']
  ultimately show ?thesis
    using assms(1,2,4,5,6) by (simp add: balanced_def active_def idle_while_waiting_def not_waiting)
qed

lemma release_balanced:
  assumes "balanced s" "i < length (slots s)" "slots s ! i = Active m"
    and "permits s' = permits s + 1" "slots s' = (slots s)[i := Gone r]" "history s' = history s"
  shows "balanced s'"
proof -
  from count_update[OF assms(2), of is_active "Gone r"] assms(3)
  have "Suc (length (filter is_active ((slots s)[i := Gone r]))) = active s"
    by (simp add: active_def is_active_def)
  moreover from assms(1) have "idle_while_waiting s"
    by (simp add: balanced_def)
  note idle_update[OF this not_waiting(2), of i r]
  ultimately show ?thesis
    using assms(1,4,5,6) by (auto simp: balanced_def active_def idle_while_waiting_def)
qed

lemma move_balanced:
  assumes "balanced s" "move E s i = Some s'"
  shows "balanced s'"
proof (cases "i < length (slots s)")
  case False
  with assms(2) show ?thesis by (simp add: move_def)
next
  case True
  show ?thesis
  proof (cases "slots s ! i")
    case (Waiting m)
    with assms(2) True have "0 < permits s"
      and "s' = s\<lparr>permits := permits s - 1, slots := (slots s)[i := Active m]\<rparr>"
      by (auto simp: move_def split: if_splits)
    then show ?thesis
      by (intro acquire_balanced[OF assms(1) True Waiting]) simp_all
  next
    case (Active m)
    show ?thesis
    proof (cases m)
      case (Return r)
      with assms(2) True Active
      have "s' = s\<lparr>permits := permits s + 1, slots := (slots s)[i := Gone r]\<rparr>"
        by (simp add: move_def)
      then show ?thesis
        by (intro release_balanced[OF assms(1) True Active, of _ r]) simp_all
    next
      case (Spawn c k)
      with assms(2) True Active obtain m' ev where
        "permits s' = permits s" "slots s' = (slots s)[i := Active m']"
        "history s' = history s @ [(i, ev)]"
        by (auto simp: move_def Let_def split: prod.splits)
      then show ?thesis by (rule advance_balanced[OF assms(1) True Active])
    next
      case (Exists p k)
      with assms(2) True Active obtain m' ev where
        "permits s' = permits s" "slots s' = (slots s)[i := Active m']"
        "history s' = history s @ [(i, ev)]"
        by (auto simp: move_def Let_def)
      then show ?thesis by (rule advance_balanced[OF assms(1) True Active])
    next
      case (Makedirs p k)
      with assms(2) True Active obtain m' ev where
        "permits s' = permits s" "slots s' = (slots s)[i := Active m']"
        "history s' = history s @ [(i, ev)]"
        by (auto simp: move_def)
      then show ?thesis by (rule advance_balanced[OF assms(1) True Active])
    next
      case (Print t k)
      with assms(2) True Active obtain m' ev where
        "permits s' = permits s" "slots s' = (slots s)[i := Active m']"
        "history s' = history s @ [(i, ev)]"
        by (auto simp: move_def)
      then show ?thesis by (rule advance_balanced[OF assms(1) True Active])
    qed
  next
    case (Gone r)
    with assms True show ?thesis by (simp add: move_def)
  qed
qed

lemma play_balanced: "balanced s \<Longrightarrow> play E sched s = Some s' \<Longrightarrow> balanced s'"
proof (induction sched arbitrary: s)
  case Nil
  then show ?case by simp
next
  case (Cons i sched)
  from Cons.prems(2) obtain s1 where s1: "move E s i = Some s1" "play E sched s1 = Some s'"
    by (auto split: option.splits)
  from move_balanced[OF Cons.prems(1) s1(1)] have "balanced s1" .
  from Cons.IH[OF this s1(2)] show ?case .
qed

lemma release_possible:
  "i < length (slots s) \<Longrightarrow> slots s ! i = Active (Return r) \<Longrightarrow>
   move E s i = Some (s\<lparr>permits := permits s + 1, slots := (slots s)[i := Gone r]\<rparr>)"
  by (simp add: move_def)

text \<open>
  C8. However the event loop schedules the tasks of a run, in every state it reaches at most
  five reconciliations are inside \<open>async with self.semaphore\<close>: the permits left and
  the tasks inside always add up to 5. A task that still waits for its permit has done
  nothing, and a task whose body has ended, with a return or with an exception, can always
  leave, which gives its permit back.
\<close>

theorem at_most_five_active:
  assumes "play E sched (launch self cwd repos w) = Some s"
  shows "active s \<le> 5 \<and> permits s + active s = 5 \<and> idle_while_waiting s
         \<and> (\<forall>i < length (slots s). \<forall>r. slots s ! i = Active (Return r) \<longrightarrow>
               move E s i = Some (s\<lparr>permits := permits s + 1, slots := (slots s)[i := Gone r]\<rparr>))"
proof -
  from play_balanced[OF launch_balanced assms] have "balanced s" .
  then show ?thesis by (auto simp: balanced_def release_possible)
qed

theorem at_most_five_active_witness:
  "\<exists>s. play fresh_world [0, 1, 2, 3, 4, 0] (launch demo workdir catalogue 0) = Some s
       \<and> active s = 5 \<and> permits s = 0 \<and> idle_while_waiting s
       \<and> move fresh_world s 5 = None
       \<and> history s = [(0, Said (nl @ ''Processing repository: terraform-gcp-compute''))]"
proof -
  define s where "s = the (play fresh_world [0, 1, 2, 3, 4, 0] (launch demo workdir catalogue 0))"
  have named: "repo_name_of (descriptor ''terraform-gcp-compute'') = Inr ''terraform-gcp-compute''"
    by (simp add: repo_name_of_def descriptor_def)
  have played: "play fresh_world [0, 1, 2, 3, 4, 0] (launch demo workdir catalogue 0) = Some s
      \<and> permits s = 0 \<and> move fresh_world s 5 = None
      \<and> history s = [(0, Said (nl @ ''Processing repository: terraform-gcp-compute''))]"
    by (simp add: s_def launch_def catalogue_def move_def process_repository_named[OF named])
  then have "play fresh_world [0, 1, 2, 3, 4, 0] (launch demo workdir catalogue 0) = Some s"
    by blast
  from at_most_five_active[OF this] played
  have "active s = 5 \<and> idle_while_waiting s" by simp
  with played show ?thesis by blast
qed

end
